theory Spec2Isabelle
  imports Complex_Main
begin

section \<open>Bond market simulator: data model\<close>

text \<open>
  A shallow embedding of \<^verbatim>\<open>src/simulation/market_model.py\<close> (class
  \<^verbatim>\<open>BondMarketSimulator\<close> and the module-level \<^verbatim>\<open>run_simulation\<close>).
  Python floats are modelled as \<^typ>\<open>real\<close>, Python and numpy integers as \<^typ>\<open>int\<close>,
  exceptions as values of \<open>py_error\<close> on the left of a sum.
\<close>

datatype py_error = KeyError | IndexError | ValueError | ZeroDivisionError | AttributeError

text \<open>
  The numpy global generator. Every call of a sampling routine takes the next draw; the model
  threads the number of draws made so far (a \<^typ>\<open>nat\<close>) and reads the sample of draw
  number \<open>k\<close> from an oracle, one field per elementary distribution:
  \<^item> \<open>rand_index\<close>: the raw integer behind \<^verbatim>\<open>randint\<close> and \<^verbatim>\<open>choice\<close>, reduced
    modulo the number of alternatives (numpy returns a value of the range, whatever the draw);
  \<^item> \<open>rand_uniform\<close>: the sample of \<^verbatim>\<open>random()\<close>;
  \<^item> \<open>rand_gauss\<close>: the standard normal sample (\<^verbatim>\<open>normal(loc, scale)\<close> is
    \<open>loc + scale * z\<close>, \<^verbatim>\<open>lognormal(mean, sigma)\<close> is \<open>exp (mean + sigma * z)\<close>);
  \<^item> \<open>rand_expo\<close>: the standard exponential sample (\<^verbatim>\<open>exponential(scale)\<close> is
    \<open>scale * e\<close>);
  \<^item> \<open>rand_poisson\<close>, \<open>rand_beta\<close>: the samples of \<^verbatim>\<open>poisson(lam)\<close> and
    \<^verbatim>\<open>beta(2, 5)\<close>.
\<close>

record rng =
  rand_index :: "nat \<Rightarrow> nat"
  rand_uniform :: "nat \<Rightarrow> real"
  rand_gauss :: "nat \<Rightarrow> real"
  rand_expo :: "nat \<Rightarrow> real"
  rand_poisson :: "nat \<Rightarrow> nat"
  rand_beta :: "nat \<Rightarrow> real"

text \<open>\<^verbatim>\<open>pd.Timestamp\<close>: a calendar date (year, month, day).\<close>

datatype timestamp = Timestamp int nat nat

text \<open>The arguments of \<^verbatim>\<open>BondMarketSimulator.__init__\<close>, stored unchanged.\<close>

record config =
  num_bonds :: int
  num_investors :: int
  simulation_days :: int
  traditional_min_amount :: real
  tokenized_min_amount :: real

text \<open>A row of \<^verbatim>\<open>self.bonds\<close>.\<close>

record bond =
  bond_id :: int
  face_value :: int
  coupon_rate :: real
  maturity_years :: int
  credit_rating :: string
  issue_date :: timestamp
  is_tokenized :: bool
  maturity_date :: timestamp

text \<open>
  A row of a market table: the bond's columns and the four columns that
  \<^verbatim>\<open>initialize_markets\<close> adds.
\<close>

record market_row = bond +
  price :: real
  daily_volume :: real
  bid_ask_spread :: real
  market_depth :: int

text \<open>A row of \<^verbatim>\<open>self.investors\<close>.\<close>

record investor =
  investor_id :: int
  investor_type :: string
  assets :: real
  blockchain_preference :: real
  risk_aversion :: real
  investment_horizon :: int

text \<open>The dictionary returned by \<^verbatim>\<open>_update_market_conditions\<close>.\<close>

record market_conditions =
  reference_rate :: real
  market_sentiment :: real
  volatility :: real
  event_impact :: real

text \<open>The transaction dictionary (keys prefixed, they clash with the market columns).\<close>

record transaction =
  tx_date :: timestamp
  tx_bond_id :: int
  tx_investor_id :: int
  tx_price :: real
  tx_amount :: real
  tx_type :: string
  tx_is_tokenized :: bool

text \<open>The \<^verbatim>\<open>daily_metrics\<close> dictionary.\<close>

record daily_metrics =
  dm_date :: timestamp
  avg_price :: real
  total_volume :: real
  avg_spread :: real
  num_transactions :: nat
  dm_market_depth :: real

text \<open>
  A pandas DataFrame with an integer index: the rows in order, each with its index label.
  \<^verbatim>\<open>iloc\<close> addresses a row by position, \<^verbatim>\<open>at\<close> by label.
\<close>

type_synonym 'a frame = "(nat \<times> 'a) list"

definition range_index :: "'a list \<Rightarrow> 'a frame" where
  "range_index rows = zip [0..<length rows] rows"

definition iloc :: "'a frame \<Rightarrow> nat \<Rightarrow> py_error + 'a" where
  "iloc f i = (if i < length f then Inr (snd (f ! i)) else Inl IndexError)"

definition at_get :: "'a frame \<Rightarrow> nat \<Rightarrow> py_error + 'a" where
  "at_get f l = (case map_of f l of None \<Rightarrow> Inl KeyError | Some r \<Rightarrow> Inr r)"

definition at_set :: "'a frame \<Rightarrow> nat \<Rightarrow> 'a \<Rightarrow> 'a frame" where
  "at_set f l v = map (\<lambda>(l', r). if l' = l then (l', v) else (l', r)) f"

section \<open>Sampling routines\<close>

text \<open>\<^verbatim>\<open>np.random.choice(opts, n)\<close>: draws \<open>k .. k + n - 1\<close>.\<close>

definition choice :: "rng \<Rightarrow> 'a list \<Rightarrow> nat \<Rightarrow> nat \<Rightarrow> 'a list" where
  "choice g opts n k = map (\<lambda>i. opts ! (rand_index g i mod length opts)) [k..<k + n]"

text \<open>\<^verbatim>\<open>np.random.uniform(low, high, n)\<close>.\<close>

definition uniform :: "rng \<Rightarrow> real \<Rightarrow> real \<Rightarrow> nat \<Rightarrow> nat \<Rightarrow> real list" where
  "uniform g low high n k = map (\<lambda>i. low + (high - low) * rand_uniform g i) [k..<k + n]"

text \<open>\<^verbatim>\<open>np.random.normal(loc, scale)\<close>, one sample, draw \<open>k\<close>.\<close>

definition normal :: "rng \<Rightarrow> real \<Rightarrow> real \<Rightarrow> nat \<Rightarrow> real" where
  "normal g loc scale k = loc + scale * rand_gauss g k"

text \<open>\<^verbatim>\<open>np.random.normal(loc, scale, n)\<close>.\<close>

definition normal_vec :: "rng \<Rightarrow> real \<Rightarrow> real \<Rightarrow> nat \<Rightarrow> nat \<Rightarrow> real list" where
  "normal_vec g loc scale n k = map (normal g loc scale) [k..<k + n]"

text \<open>\<^verbatim>\<open>np.random.lognormal(mean, sigma, n)\<close>.\<close>

definition lognormal :: "rng \<Rightarrow> real \<Rightarrow> real \<Rightarrow> nat \<Rightarrow> nat \<Rightarrow> real list" where
  "lognormal g mean sigma n k = map (\<lambda>i. exp (mean + sigma * rand_gauss g i)) [k..<k + n]"

text \<open>\<^verbatim>\<open>np.random.exponential(scale)\<close>.\<close>

definition exponential :: "rng \<Rightarrow> real \<Rightarrow> nat \<Rightarrow> real" where
  "exponential g scale k = scale * rand_expo g k"

text \<open>\<^verbatim>\<open>np.random.randint(0, n)\<close>: \<^verbatim>\<open>ValueError\<close> when the range is empty.\<close>

definition randint :: "rng \<Rightarrow> nat \<Rightarrow> nat \<Rightarrow> py_error + nat" where
  "randint g n k = (if n = 0 then Inl ValueError else Inr (rand_index g k mod n))"

text \<open>\<^verbatim>\<open>np.clip\<close> on a scalar, and \<^verbatim>\<open>int()\<close> / \<^verbatim>\<open>astype(int)\<close> on a float.\<close>

definition clip :: "real \<Rightarrow> real \<Rightarrow> real \<Rightarrow> real" where
  "clip x lo hi = min (max x lo) hi"

definition trunc_int :: "real \<Rightarrow> int" where
  "trunc_int x = (if 0 \<le> x then \<lfloor>x\<rfloor> else \<lceil>x\<rceil>)"

text \<open>\<^verbatim>\<open>ts + pd.DateOffset(years=n)\<close> on the first of January, and \<^verbatim>\<open>DateOffset(days=n)\<close>.\<close>

fun add_years :: "timestamp \<Rightarrow> int \<Rightarrow> timestamp" where
  "add_years (Timestamp y m d) n = Timestamp (y + n) m d"

definition leap_year :: "int \<Rightarrow> bool" where
  "leap_year y = (y mod 4 = 0 \<and> (y mod 100 \<noteq> 0 \<or> y mod 400 = 0))"

definition days_in_month :: "int \<Rightarrow> nat \<Rightarrow> nat" where
  "days_in_month y m =
     (if m = 2 then (if leap_year y then 29 else 28)
      else if m = 4 \<or> m = 6 \<or> m = 9 \<or> m = 11 then 30 else 31)"

fun next_day :: "timestamp \<Rightarrow> timestamp" where
  "next_day (Timestamp y m d) =
     (if d < days_in_month y m then Timestamp y m (d + 1)
      else if m < 12 then Timestamp y (m + 1) 1
      else Timestamp (y + 1) 1 1)"

fun add_days :: "timestamp \<Rightarrow> nat \<Rightarrow> timestamp" where
  "add_days t 0 = t"
| "add_days t (Suc n) = add_days (next_day t) n"

section \<open>Population generator\<close>

text \<open>
  \<^verbatim>\<open>generate_bonds\<close>. A negative size makes \<^verbatim>\<open>np.random.choice\<close> raise
  \<^verbatim>\<open>ValueError\<close>. The traditional rows are built first, copied with the flag set and
  the identifier shifted by \<^verbatim>\<open>num_bonds\<close>, and the two tables are concatenated with
  \<^verbatim>\<open>ignore_index=True\<close>, which relabels the rows \<open>0 .. 2 * num_bonds - 1\<close>.
\<close>

definition generate_bonds :: "config \<Rightarrow> rng \<Rightarrow> nat \<Rightarrow> py_error + (bond frame \<times> nat)" where
  "generate_bonds c g k =
     (if num_bonds c < 0 then Inl ValueError
      else
        let n = nat (num_bonds c);
            face_values = choice g [1000, 5000, 10000, 50000, 100000] n k;
            coupon_rates = uniform g 0.01 0.08 n (k + n);
            maturities = choice g [1, 2, 3, 5, 7, 10, 15, 20, 30] n (k + 2 * n);
            credit_ratings = choice g [''AAA'', ''AA'', ''A'', ''BBB'', ''BB'', ''B''] n (k + 3 * n);
            bonds = map (\<lambda>i.
              \<lparr>bond_id = int i + 1,
               face_value = face_values ! i,
               coupon_rate = coupon_rates ! i,
               maturity_years = maturities ! i,
               credit_rating = credit_ratings ! i,
               issue_date = Timestamp 2024 1 1,
               is_tokenized = False,
               maturity_date = add_years (Timestamp 2024 1 1) (maturities ! i)\<rparr>) [0..<n];
            tokenized_bonds =
              map (\<lambda>b. b\<lparr>is_tokenized := True, bond_id := bond_id b + num_bonds c\<rparr>) bonds
        in Inr (range_index (bonds @ tokenized_bonds), k + 4 * n))"

text \<open>\<^verbatim>\<open>generate_investors\<close>.\<close>

definition generate_investors :: "config \<Rightarrow> rng \<Rightarrow> nat \<Rightarrow> py_error + (investor list \<times> nat)" where
  "generate_investors c g k =
     (if num_investors c < 0 then Inl ValueError
      else
        let n = nat (num_investors c);
            investor_types = choice g [''Retail'', ''Institutional'', ''Corporate''] n k;
            assets0 = lognormal g 10 2 n (k + n);
            assets1 = map (\<lambda>a. a * 10000) assets0;
            blockchain_preference1 = map (rand_beta g) [k + 2 * n..<k + 2 * n + n];
            risk_aversion0 = normal_vec g 0.5 0.15 n (k + 3 * n);
            risk_aversion1 = map (\<lambda>r. clip r 0.1 0.9) risk_aversion0;
            investment_horizons = choice g [1, 2, 3, 5, 7, 10, 15] n (k + 4 * n)
        in Inr (map (\<lambda>i.
              \<lparr>investor_id = int i + 1,
               investor_type = investor_types ! i,
               assets = assets1 ! i,
               blockchain_preference = blockchain_preference1 ! i,
               risk_aversion = risk_aversion1 ! i,
               investment_horizon = investment_horizons ! i\<rparr>) [0..<n], k + 5 * n))"

section \<open>Market initializer\<close>

text \<open>
  The body of the loop of \<^verbatim>\<open>initialize_markets\<close> for one market table.
  \<^verbatim>\<open>market.iloc[0]\<close> raises \<^verbatim>\<open>IndexError\<close> on an empty table. The depth column
  takes one Poisson draw per row.
\<close>

definition initialize_market :: "rng \<Rightarrow> bond frame \<Rightarrow> nat \<Rightarrow> py_error + (market_row frame \<times> nat)" where
  "initialize_market g market k =
     (case iloc market 0 of
        Inl e \<Rightarrow> Inl e
      | Inr first \<Rightarrow>
          let reference_rate = 0.03;
              n = length market
          in Inr (map (\<lambda>i.
                let l = fst (market ! i); x = snd (market ! i);
                    base_volume = real_of_int (face_value x) * 0.01
                in (l,
                  \<lparr>bond_id = bond_id x,
                   face_value = face_value x,
                   coupon_rate = coupon_rate x,
                   maturity_years = maturity_years x,
                   credit_rating = credit_rating x,
                   issue_date = issue_date x,
                   is_tokenized = is_tokenized x,
                   maturity_date = maturity_date x,
                   price = real_of_int (face_value x)
                     * (1 + (coupon_rate x - reference_rate) * real_of_int (maturity_years x)),
                   daily_volume = (if is_tokenized first then base_volume * 5 else base_volume),
                   bid_ask_spread =
                     (if is_tokenized first then 0.001 + 0.001 * real_of_int (maturity_years x)
                      else 0.005 + 0.002 * real_of_int (maturity_years x)),
                   market_depth =
                     (if is_tokenized first then 50 + int (rand_poisson g (k + i))
                      else 10 + int (rand_poisson g (k + i)))\<rparr>)) [0..<n], k + n))"

text \<open>
  \<^verbatim>\<open>initialize_markets\<close>: the two tables are boolean selections of \<^verbatim>\<open>self.bonds\<close>,
  which keep the index labels of the selected rows; the traditional table is initialised
  first. The result is (traditional market, tokenized market, draws made).
\<close>

definition initialize_markets ::
  "rng \<Rightarrow> bond frame \<Rightarrow> nat \<Rightarrow> py_error + (market_row frame \<times> market_row frame \<times> nat)" where
  "initialize_markets g bonds k =
     (let traditional = filter (\<lambda>(l, b). is_tokenized b = False) bonds;
          tokenized = filter (\<lambda>(l, b). is_tokenized b = True) bonds
      in case initialize_market g traditional k of
           Inl e \<Rightarrow> Inl e
         | Inr (traditional_market, k1) \<Rightarrow>
             (case initialize_market g tokenized k1 of
                Inl e \<Rightarrow> Inl e
              | Inr (tokenized_market, k2) \<Rightarrow> Inr (traditional_market, tokenized_market, k2)))"

section \<open>Market-condition process\<close>

text \<open>
  \<^verbatim>\<open>_update_market_conditions\<close>. The attribute \<^verbatim>\<open>self.market_sentiment\<close> is the
  \<^typ>\<open>real option\<close> argument: \<open>None\<close> before the first assignment, and reading it then is an
  \<^verbatim>\<open>AttributeError\<close>. The result is the conditions, the new attribute value and the draws
  made.
\<close>

definition update_market_conditions ::
  "config \<Rightarrow> rng \<Rightarrow> int \<Rightarrow> real option \<Rightarrow> nat
     \<Rightarrow> py_error + (market_conditions \<times> real \<times> nat)" where
  "update_market_conditions c g day sentiment k =
     (if simulation_days c = 0 then Inl ZeroDivisionError
      else
        let base_rate = 0.03;
            rate_trend = real_of_int day / real_of_int (simulation_days c) * 0.01;
            daily_noise = normal g 0 0.0005 k;
            reference_rate1 = base_rate + rate_trend + daily_noise
        in case (if day = 0 then Inr (0, k + 1)
                 else (case sentiment of
                         None \<Rightarrow> Inl AttributeError
                       | Some s \<Rightarrow>
                           let sentiment_change = normal g 0 0.1 (k + 1)
                           in Inr (clip (0.8 * s + 0.2 * sentiment_change) (- 1) 1, k + 2))) of
             Inl e \<Rightarrow> Inl e
           | Inr (s1, k1) \<Rightarrow>
               let base_volatility = 0.01;
                   volatility1 = base_volatility * (1 + 0.5 * \<bar>s1\<bar>);
                   event_probability = 0.01
               in if rand_uniform g k1 < event_probability
                  then Inr (\<lparr>reference_rate = reference_rate1, market_sentiment = s1,
                             volatility = volatility1,
                             event_impact = normal g 0 0.03 (k1 + 1)\<rparr>, s1, k1 + 2)
                  else Inr (\<lparr>reference_rate = reference_rate1, market_sentiment = s1,
                             volatility = volatility1, event_impact = 0\<rparr>, s1, k1 + 1))"

section \<open>State carry-forward\<close>

text \<open>
  \<^verbatim>\<open>_update_market_for_next_day\<close>. \<^verbatim>\<open>updated_market\<close> is a copy of
  \<^verbatim>\<open>original_market\<close> with the same index, so the column assignments pair the rows by
  position. The spread noise takes the draws \<open>k .. k + n - 1\<close>, the depth noise the next
  \<open>n\<close>; \<^verbatim>\<open>astype(int)\<close> truncates toward zero.
\<close>

definition update_market_for_next_day ::
  "rng \<Rightarrow> market_row frame \<Rightarrow> market_row frame \<Rightarrow> nat
     \<Rightarrow> py_error + (market_row frame \<times> nat)" where
  "update_market_for_next_day g original_market updated_market k =
     (case iloc original_market 0 of
        Inl e \<Rightarrow> Inl e
      | Inr first \<Rightarrow>
          let n = length original_market;
              spread_adjustment = normal_vec g 1 0.05 n k;
              depth_adjustment = normal_vec g 1 0.1 n (k + n)
          in Inr (map (\<lambda>i.
                let l = fst (original_market ! i); x = snd (original_market ! i);
                    u = snd (updated_market ! i);
                    base_volume = real_of_int (face_value x) * 0.01
                in (l, x\<lparr>price := price u,
                         daily_volume :=
                           (if is_tokenized first
                            then base_volume * 5 * 0.2 + daily_volume u * 0.8
                            else base_volume * 0.2 + daily_volume u * 0.8),
                         bid_ask_spread := bid_ask_spread u * (spread_adjustment ! i),
                         market_depth :=
                           trunc_int (real_of_int (market_depth u) * (depth_adjustment ! i))\<rparr>))
                [0..<n], k + 2 * n))"

section \<open>Daily trading step\<close>

text \<open>
  The price loop of \<^verbatim>\<open>_simulate_daily_trading\<close>: \<^verbatim>\<open>iterrows\<close> visits the rows in
  order and \<^verbatim>\<open>at[idx, 'price']\<close> writes the row being visited (the labels of a market table
  are distinct); one normal draw per row.
\<close>

definition update_prices :: "rng \<Rightarrow> market_conditions \<Rightarrow> market_row frame \<Rightarrow> nat \<Rightarrow> market_row frame" where
  "update_prices g mc market k =
     (let price_change_factor = 1 + event_impact mc + market_sentiment mc * 0.01
      in map (\<lambda>i.
           let idx = fst (market ! i); b = snd (market ! i);
               rate_sensitivity = real_of_int (maturity_years b) * 0.05;
               price_impact = - rate_sensitivity * (reference_rate mc - 0.03);
               p = price b * (1 + price_impact) * price_change_factor;
               specific_noise = normal g 0 (volatility mc) (k + i)
           in (idx, b\<lparr>price := p * (1 + specific_noise)\<rparr>)) [0..<length market])"

text \<open>
  One pass of the transaction loop. The bond is read by position (\<^verbatim>\<open>iloc[bond_idx]\<close>),
  the daily volume is updated by label (\<^verbatim>\<open>at[bond_idx, 'daily_volume'] += ...\<close>), which
  reads the cell first and raises \<^verbatim>\<open>KeyError\<close> when no row has that label. The
  transaction has been appended to the day's list before that.
\<close>

definition transaction_attempt ::
  "config \<Rightarrow> rng \<Rightarrow> investor list \<Rightarrow> timestamp \<Rightarrow> bool
     \<Rightarrow> market_row frame \<times> transaction list \<times> nat
     \<Rightarrow> py_error + (market_row frame \<times> transaction list \<times> nat)" where
  "transaction_attempt c g investors current_date tokenized st =
     (case st of (updated_market, daily_transactions, k) \<Rightarrow>
       (case randint g (length updated_market) k of
          Inl e \<Rightarrow> Inl e
        | Inr bond_idx \<Rightarrow>
           (case iloc updated_market bond_idx of
              Inl e \<Rightarrow> Inl e
            | Inr b \<Rightarrow>
               (case randint g (length investors) (k + 1) of
                  Inl e \<Rightarrow> Inl e
                | Inr investor_idx \<Rightarrow>
                    if \<not> investor_idx < length investors then Inl IndexError
                    else
                      let inv = investors ! investor_idx;
                          min_amount =
                            (if tokenized then tokenized_min_amount c
                             else traditional_min_amount c);
                          max_amount =
                            (if tokenized
                             then min (real_of_int (face_value b)) (assets inv * 0.1)
                             else min (real_of_int (face_value b) * 5) (assets inv * 0.1))
                      in if min_amount > assets inv * 0.1
                         then Inr (updated_market, daily_transactions, k + 2)
                         else
                           let transaction_amount0 =
                                 min_amount * (1 + exponential g 2 (k + 2));
                               transaction_amount = min transaction_amount0 max_amount;
                               spread = bid_ask_spread b;
                               buy = (rand_uniform g (k + 3) < 0.5);
                               transaction_price =
                                 (if buy then price b * (1 + spread / 2)
                                  else price b * (1 - spread / 2));
                               transaction_type = (if buy then ''buy'' else ''sell'');
                               tx = \<lparr>tx_date = current_date, tx_bond_id = bond_id b,
                                     tx_investor_id = investor_id inv,
                                     tx_price = transaction_price,
                                     tx_amount = transaction_amount,
                                     tx_type = transaction_type,
                                     tx_is_tokenized = tokenized\<rparr>
                           in (case at_get updated_market bond_idx of
                                 Inl e \<Rightarrow> Inl e
                               | Inr r \<Rightarrow>
                                   Inr (at_set updated_market bond_idx
                                          (r\<lparr>daily_volume :=
                                               daily_volume r + transaction_amount\<rparr>),
                                        daily_transactions @ [tx], k + 4))))))"

text \<open>\<^verbatim>\<open>for _ in range(num_transactions)\<close>: an exception ends the loop.\<close>

fun transaction_loop ::
  "config \<Rightarrow> rng \<Rightarrow> investor list \<Rightarrow> timestamp \<Rightarrow> bool \<Rightarrow> nat
     \<Rightarrow> market_row frame \<times> transaction list \<times> nat
     \<Rightarrow> py_error + (market_row frame \<times> transaction list \<times> nat)" where
  "transaction_loop c g investors current_date tokenized 0 st = Inr st"
| "transaction_loop c g investors current_date tokenized (Suc n) st =
     (case transaction_attempt c g investors current_date tokenized st of
        Inl e \<Rightarrow> Inl e
      | Inr st' \<Rightarrow> transaction_loop c g investors current_date tokenized n st')"

text \<open>The target number of transactions: \<^verbatim>\<open>max(1, int(...))\<close>.\<close>

definition target_transactions :: "market_conditions \<Rightarrow> bool \<Rightarrow> nat \<Rightarrow> nat" where
  "target_transactions mc tokenized len =
     (let base_transactions = real (len * 2);
          num = (if tokenized
                 then trunc_int (base_transactions * (1.5 + market_sentiment mc))
                 else trunc_int (base_transactions * (0.5 + 0.5 * market_sentiment mc)))
      in nat (max 1 num))"

text \<open>The \<^verbatim>\<open>mean()\<close> of a column (of a table that has rows).\<close>

definition mean :: "real list \<Rightarrow> real" where
  "mean xs = sum_list xs / real (length xs)"

text \<open>
  \<^verbatim>\<open>_simulate_daily_trading\<close>: the metrics, the day's transactions, the market table
  as \<^verbatim>\<open>_update_market_for_next_day\<close> leaves it, and the draws made.
\<close>

definition simulate_daily_trading ::
  "config \<Rightarrow> rng \<Rightarrow> investor list \<Rightarrow> market_row frame \<Rightarrow> timestamp \<Rightarrow> market_conditions
     \<Rightarrow> bool \<Rightarrow> nat
     \<Rightarrow> py_error + (daily_metrics \<times> transaction list \<times> market_row frame \<times> nat)" where
  "simulate_daily_trading c g investors market current_date mc tokenized k =
     (let updated_market0 = update_prices g mc market k;
          k1 = k + length market;
          num = target_transactions mc tokenized (length updated_market0)
      in (case transaction_loop c g investors current_date tokenized num
                (updated_market0, [], k1) of
            Inl e \<Rightarrow> Inl e
          | Inr (updated_market, daily_transactions, k2) \<Rightarrow>
              let metrics =
                    \<lparr>dm_date = current_date,
                     avg_price = mean (map (\<lambda>(l, r). price r) updated_market),
                     total_volume = sum_list (map (\<lambda>(l, r). daily_volume r) updated_market),
                     avg_spread = mean (map (\<lambda>(l, r). bid_ask_spread r) updated_market),
                     num_transactions = length daily_transactions,
                     dm_market_depth =
                       mean (map (\<lambda>(l, r). real_of_int (market_depth r)) updated_market)\<rparr>
              in (case update_market_for_next_day g market updated_market k2 of
                    Inl e \<Rightarrow> Inl e
                  | Inr (market', k3) \<Rightarrow> Inr (metrics, daily_transactions, market', k3))))"

section \<open>Simulation driver\<close>

text \<open>
  The simulator's mutable attributes during the day loop, and the four output tables
  collected so far.
\<close>

record sim_state =
  traditional_market :: "market_row frame"
  tokenized_market :: "market_row frame"
  sentiment_attr :: "real option"
  traditional_metrics :: "daily_metrics list"
  tokenized_metrics :: "daily_metrics list"
  traditional_transactions :: "transaction list"
  tokenized_transactions :: "transaction list"
  draws :: nat

text \<open>The body of the day loop of \<^verbatim>\<open>run_simulation\<close>.\<close>

definition simulate_day :: "config \<Rightarrow> rng \<Rightarrow> investor list \<Rightarrow> nat \<Rightarrow> sim_state \<Rightarrow> py_error + sim_state" where
  "simulate_day c g investors day s =
     (let current_date = add_days (Timestamp 2024 1 1) day
      in (case update_market_conditions c g (int day) (sentiment_attr s) (draws s) of
            Inl e \<Rightarrow> Inl e
          | Inr (mc, s1, k1) \<Rightarrow>
             (case simulate_daily_trading c g investors (traditional_market s) current_date mc
                     False k1 of
                Inl e \<Rightarrow> Inl e
              | Inr (traditional_daily_metrics, traditional_daily_trades, trad', k2) \<Rightarrow>
                 (case simulate_daily_trading c g investors (tokenized_market s) current_date mc
                         True k2 of
                    Inl e \<Rightarrow> Inl e
                  | Inr (tokenized_daily_metrics, tokenized_daily_trades, tok', k3) \<Rightarrow>
                      Inr \<lparr>traditional_market = trad',
                           tokenized_market = tok',
                           sentiment_attr = Some s1,
                           traditional_metrics =
                             traditional_metrics s @ [traditional_daily_metrics],
                           tokenized_metrics = tokenized_metrics s @ [tokenized_daily_metrics],
                           traditional_transactions =
                             traditional_transactions s @ traditional_daily_trades,
                           tokenized_transactions =
                             tokenized_transactions s @ tokenized_daily_trades,
                           draws = k3\<rparr>))))"

text \<open>\<^verbatim>\<open>for day in range(self.simulation_days)\<close>, as the days still to run from \<open>day\<close>.\<close>

fun day_loop :: "config \<Rightarrow> rng \<Rightarrow> investor list \<Rightarrow> nat \<Rightarrow> nat \<Rightarrow> sim_state \<Rightarrow> py_error + sim_state" where
  "day_loop c g investors day 0 s = Inr s"
| "day_loop c g investors day (Suc n) s =
     (case simulate_day c g investors day s of
        Inl e \<Rightarrow> Inl e
      | Inr s' \<Rightarrow> day_loop c g investors (Suc day) n s')"

text \<open>
  \<^verbatim>\<open>run_simulation\<close> on a simulator fresh from \<^verbatim>\<open>__init__\<close> (bonds, investors and
  markets are \<^verbatim>\<open>None\<close>, so the three generation steps run), as the module-level
  \<^verbatim>\<open>run_simulation\<close> calls it. \<^verbatim>\<open>__init__\<close> checks nothing, and
  \<^verbatim>\<open>range\<close> of a non-positive day count is empty.
\<close>

definition run_simulation :: "config \<Rightarrow> rng \<Rightarrow> py_error + sim_state" where
  "run_simulation c g =
     (case generate_bonds c g 0 of
        Inl e \<Rightarrow> Inl e
      | Inr (bonds, k1) \<Rightarrow>
         (case generate_investors c g k1 of
            Inl e \<Rightarrow> Inl e
          | Inr (investors, k2) \<Rightarrow>
             (case initialize_markets g bonds k2 of
                Inl e \<Rightarrow> Inl e
              | Inr (trad, tok, k3) \<Rightarrow>
                  day_loop c g investors 0 (nat (simulation_days c))
                    \<lparr>traditional_market = trad, tokenized_market = tok, sentiment_attr = None,
                     traditional_metrics = [], tokenized_metrics = [],
                     traditional_transactions = [], tokenized_transactions = [],
                     draws = k3\<rparr>)))"

section \<open>Concrete inputs\<close>

text \<open>
  The configuration of the end-to-end scenario (2 bonds, 5 investors, 3 days, minimum
  amounts 10000 and 100), and a generator whose every draw is the same sample.
\<close>

definition scenario_config :: config where
  "scenario_config =
     \<lparr>num_bonds = 2, num_investors = 5, simulation_days = 3,
      traditional_min_amount = 10000, tokenized_min_amount = 100\<rparr>"

definition fixed_rng :: rng where
  "fixed_rng =
     \<lparr>rand_index = (\<lambda>k. 0), rand_uniform = (\<lambda>k. 1 / 2), rand_gauss = (\<lambda>k. 0),
      rand_expo = (\<lambda>k. 1), rand_poisson = (\<lambda>k. 10), rand_beta = (\<lambda>k. 1 / 4)\<rparr>"

text \<open>A one-day configuration in which no investor reaches either minimum amount below.\<close>

definition one_day_config :: config where
  "one_day_config =
     \<lparr>num_bonds = 1, num_investors = 1, simulation_days = 1,
      traditional_min_amount = 10000, tokenized_min_amount = 10000\<rparr>"


text \<open>A market row and a generator for the carry-forward examples.\<close>

definition sample_row :: market_row where
  "sample_row =
     \<lparr>bond_id = 1, face_value = 1000, coupon_rate = 0.05, maturity_years = 1,
      credit_rating = ''AAA'', issue_date = Timestamp 2024 1 1, is_tokenized = False,
      maturity_date = Timestamp 2025 1 1,
      price = 1020, daily_volume = 10, bid_ask_spread = 0.007, market_depth = 10\<rparr>"


text \<open>An investor below both minimum amounts, and a day without shock or sentiment.\<close>

definition poor_investor :: investor where
  "poor_investor =
     \<lparr>investor_id = 1, investor_type = ''Retail'', assets = 500,
      blockchain_preference = 1 / 4, risk_aversion = 1 / 2, investment_horizon = 5\<rparr>"

definition calm_conditions :: market_conditions where
  "calm_conditions =
     \<lparr>reference_rate = 0.03, market_sentiment = 0, volatility = 0.01, event_impact = 0\<rparr>"

text \<open>An investor above both minimum amounts of the scenario.\<close>

definition rich_investor :: investor where
  "rich_investor =
     \<lparr>investor_id = 2, investor_type = ''Institutional'', assets = 1000000,
      blockchain_preference = 1 / 4, risk_aversion = 1 / 2, investment_horizon = 5\<rparr>"



text \<open>
  A three-day configuration with one bond per venue and one investor below both minimum
  amounts, a generator whose spread noise differs between the venues, and the rows that
  the run goes through.
\<close>

definition spread_config :: config where
  "spread_config =
     \<lparr>num_bonds = 1, num_investors = 1, simulation_days = 3,
      traditional_min_amount = 10000, tokenized_min_amount = 10000\<rparr>"

definition spread_rng :: rng where
  "spread_rng =
     \<lparr>rand_index = (\<lambda>k. 8), rand_uniform = (\<lambda>k. 1 / 2),
      rand_gauss = (\<lambda>k. if k = 5 then - 5 else if k = 16 \<or> k = 33 then - 4
                         else if k = 25 \<or> k = 42 then 4 else 0),
      rand_expo = (\<lambda>k. 1), rand_poisson = (\<lambda>k. 10), rand_beta = (\<lambda>k. 1 / 4)\<rparr>"

definition spread_investors :: "investor list" where
  "spread_investors =
     [\<lparr>investor_id = 1, investor_type = ''Corporate'', assets = 10000,
       blockchain_preference = 1 / 4, risk_aversion = 1 / 2, investment_horizon = 2\<rparr>]"

definition spread_bond :: "bool \<Rightarrow> real \<Rightarrow> real \<Rightarrow> real \<Rightarrow> int \<Rightarrow> market_row" where
  "spread_bond tok p v s d =
     \<lparr>bond_id = (if tok then 2 else 1), face_value = 50000, coupon_rate = 9 / 200,
      maturity_years = 30, credit_rating = ''A'', issue_date = Timestamp 2024 1 1,
      is_tokenized = tok, maturity_date = Timestamp 2054 1 1,
      price = p, daily_volume = v, bid_ask_spread = s, market_depth = d\<rparr>"

section \<open>Population generator: pairing of the bonds\<close>

lemma generate_bonds_rows:
  assumes "0 \<le> num_bonds c"
  shows "\<exists>trad. generate_bonds c g k =
         Inr (range_index (trad @ map (\<lambda>b. b\<lparr>is_tokenized := True,
                bond_id := bond_id b + num_bonds c\<rparr>) trad),
              k + 4 * nat (num_bonds c))
     \<and> length trad = nat (num_bonds c)
     \<and> (\<forall>b \<in> set trad. \<not> is_tokenized b)"
  using assms unfolding generate_bonds_def Let_def
  apply (simp del: map_map)
  apply (rule exI, rule conjI, rule refl)
  apply auto
  done

lemma filter_range_index_count:
  "length (filter (\<lambda>(l, b). P b) (range_index rows)) = length (filter P rows)"
proof -
  have "map snd (filter (\<lambda>(l, b). P b) (range_index rows))
      = filter P (map snd (range_index rows))"
    by (simp add: filter_map comp_def case_prod_unfold)
  moreover have "map snd (range_index rows) = rows"
    by (simp add: range_index_def)
  ultimately show ?thesis
    by (metis length_map)
qed

text \<open>
  C10. For a positive bond count \<open>B\<close> the population generator succeeds and returns \<open>B\<close>
  traditional and \<open>B\<close> tokenized bonds; row \<open>B + i\<close> is row \<open>i\<close> with the flag set and the
  identifier shifted by \<open>B\<close>, so it has the same face value, coupon rate, maturity, rating,
  issue date and maturity date, and a different identifier and flag.
\<close>

theorem generate_bonds_paired:
  assumes "0 < num_bonds c"
  shows "\<exists>bonds k'. generate_bonds c g k = Inr (bonds, k')
     \<and> length (filter (\<lambda>(l, b). \<not> is_tokenized b) bonds) = nat (num_bonds c)
     \<and> length (filter (\<lambda>(l, b). is_tokenized b) bonds) = nat (num_bonds c)
     \<and> (\<forall>i < nat (num_bonds c).
           \<not> is_tokenized (snd (bonds ! i))
         \<and> snd (bonds ! (nat (num_bonds c) + i))
             = (snd (bonds ! i))\<lparr>is_tokenized := True,
                                  bond_id := bond_id (snd (bonds ! i)) + num_bonds c\<rparr>
         \<and> bond_id (snd (bonds ! (nat (num_bonds c) + i))) \<noteq> bond_id (snd (bonds ! i)))"
proof -
  let ?n = "nat (num_bonds c)"
  let ?tok = "\<lambda>b::bond. b\<lparr>is_tokenized := True, bond_id := bond_id b + num_bonds c\<rparr>"
  from assms obtain trad where len: "length trad = ?n"
    and nt: "\<forall>b \<in> set trad. \<not> is_tokenized b"
    and gb: "generate_bonds c g k = Inr (range_index (trad @ map ?tok trad), k + 4 * ?n)"
    using generate_bonds_rows [of c g k] by auto
  let ?bonds = "range_index (trad @ map ?tok trad)"
  have c1: "length (filter (\<lambda>(l, b). \<not> is_tokenized b) ?bonds) = ?n"
    using len nt by (simp add: filter_range_index_count filter_map comp_def)
  have c2: "length (filter (\<lambda>(l, b). is_tokenized b) ?bonds) = ?n"
    using len nt by (simp add: filter_range_index_count filter_map comp_def)
  have c3: "\<not> is_tokenized (snd (?bonds ! i))
         \<and> snd (?bonds ! (?n + i)) = ?tok (snd (?bonds ! i))
         \<and> bond_id (snd (?bonds ! (?n + i))) \<noteq> bond_id (snd (?bonds ! i))" if "i < ?n" for i
    using that len nt assms by (simp add: range_index_def nth_append)
  show ?thesis using gb c1 c2 c3 by blast
qed

theorem generate_bonds_paired_witness:
  "0 < num_bonds scenario_config
   \<and> (\<exists>bonds k'. generate_bonds scenario_config fixed_rng 0 = Inr (bonds, k')
     \<and> length (filter (\<lambda>(l, b). \<not> is_tokenized b) bonds) = 2
     \<and> length (filter (\<lambda>(l, b). is_tokenized b) bonds) = 2
     \<and> (\<forall>i < 2.
           \<not> is_tokenized (snd (bonds ! i))
         \<and> snd (bonds ! (2 + i))
             = (snd (bonds ! i))\<lparr>is_tokenized := True,
                                  bond_id := bond_id (snd (bonds ! i)) + 2\<rparr>
         \<and> bond_id (snd (bonds ! (2 + i))) \<noteq> bond_id (snd (bonds ! i))))"
  using generate_bonds_paired [of scenario_config fixed_rng 0]
  by (simp add: scenario_config_def)

section \<open>Market-condition process: the sentiment\<close>


lemma update_market_conditions_day0:
  "simulation_days c \<noteq> 0 \<Longrightarrow>
     \<exists>mc k'. update_market_conditions c g 0 sentiment k = Inr (mc, 0, k') \<and> market_sentiment mc = 0"
  by (simp add: update_market_conditions_def Let_def)






section \<open>State carry-forward\<close>




section \<open>Tables, labels and the transaction loop\<close>

lemma at_get_missing: "l \<notin> set (map fst f) \<Longrightarrow> at_get f l = Inl KeyError"
  by (simp add: at_get_def map_of_eq_None_iff [THEN iffD2])

lemma at_get_present: "l \<in> set (map fst f) \<Longrightarrow> \<exists>r. at_get f l = Inr r"
  by (cases "map_of f l") (auto simp: at_get_def map_of_eq_None_iff)

lemma labels_at_set: "map fst (at_set f l v) = map fst f"
  by (induction f) (auto simp: at_set_def)

lemma length_at_set: "length (at_set f l v) = length f"
  by (simp add: at_set_def)

lemma labels_update_prices: "map fst (update_prices g mc m k) = map fst m"
  by (rule nth_equalityI) (simp_all add: update_prices_def Let_def)

lemma length_update_prices: "length (update_prices g mc m k) = length m"
  by (simp add: update_prices_def Let_def)

lemma range_index_append:
  "range_index (xs @ ys)
     = zip [0..<length xs] xs @ zip [length xs..<length xs + length ys] ys"
proof -
  have "[0..<length xs + length ys] = [0..<length xs] @ [length xs..<length xs + length ys]"
    using upt_add_eq_append [of 0 "length xs" "length ys"] by simp
  then show ?thesis
    by (simp add: range_index_def)
qed

lemma filter_zip_all: "(\<forall>x \<in> set xs. P x) \<Longrightarrow> filter (\<lambda>(l, b). P b) (zip ls xs) = zip ls xs"
  by (rule filter_True) (auto dest: set_zip_rightD)

lemma filter_zip_none: "(\<forall>x \<in> set xs. \<not> P x) \<Longrightarrow> filter (\<lambda>(l, b). P b) (zip ls xs) = []"
  by (auto simp: filter_empty_conv dest: set_zip_rightD)


lemma transaction_attempt_empty_market:
  "transaction_attempt c g investors d tokenized ([], txs, k) = Inl ValueError"
  by (simp add: transaction_attempt_def randint_def)

lemma transaction_attempt_no_investors:
  "updated_market \<noteq> [] \<Longrightarrow>
     transaction_attempt c g [] d tokenized (updated_market, txs, k) = Inl ValueError"
  by (simp add: transaction_attempt_def randint_def iloc_def)

lemma tokenized_labels_length: "map fst f = [B..<2 * B] \<Longrightarrow> length f = B"
proof -
  assume "map fst f = [B..<2 * B]"
  then have "length (map fst f) = length [B..<2 * B]" by simp
  then show ?thesis by simp
qed

lemma transaction_attempt_skip:
  assumes "updated_market \<noteq> []" and "investors \<noteq> []"
    and "\<forall>inv \<in> set investors.
           assets inv * 0.1 < (if tokenized then tokenized_min_amount c else traditional_min_amount c)"
  shows "transaction_attempt c g investors d tokenized (updated_market, txs, k)
           = Inr (updated_market, txs, k + 2)"
proof -
  have "investors ! (rand_index g (k + 1) mod length investors) \<in> set investors"
    using assms(2) by simp
  with assms(3) have "assets (investors ! (rand_index g (k + 1) mod length investors)) * 0.1
      < (if tokenized then tokenized_min_amount c else traditional_min_amount c)"
    by blast
  with assms(1,2) show ?thesis
    by (simp add: transaction_attempt_def randint_def iloc_def Let_def)
qed

lemma transaction_loop_skip:
  assumes "updated_market \<noteq> []" and "investors \<noteq> []"
    and "\<forall>inv \<in> set investors.
           assets inv * 0.1 < (if tokenized then tokenized_min_amount c else traditional_min_amount c)"
  shows "transaction_loop c g investors d tokenized n (updated_market, txs, k)
           = Inr (updated_market, txs, k + 2 * n)"
proof (induction n arbitrary: k)
  case 0
  show ?case by simp
next
  case (Suc n)
  show ?case
    using transaction_attempt_skip [OF assms, of g d txs k] Suc.IH [of "k + 2"]
    by simp
qed

lemma transaction_attempt_tokenized_keyerror:
  assumes "map fst updated_market = [B..<2 * B]" and "0 < B" and "investors \<noteq> []"
    and "\<not> tokenized_min_amount c
            > assets (investors ! (rand_index g (k + 1) mod length investors)) * 0.1"
  shows "transaction_attempt c g investors d True (updated_market, txs, k) = Inl KeyError"
proof -
  have len: "length updated_market = B"
    using assms(1) by (rule tokenized_labels_length)
  have ne: "updated_market \<noteq> []"
    using len assms(2) by auto
  have "rand_index g k mod B < B"
    using assms(2) by simp
  then have "rand_index g k mod B \<notin> set (map fst updated_market)"
    using assms(1) by simp
  then have kerr: "at_get updated_market (rand_index g k mod B) = Inl KeyError"
    by (rule at_get_missing)
  from kerr len ne assms(2,3,4) show ?thesis
    by (simp add: transaction_attempt_def randint_def iloc_def Let_def)
qed


lemma transaction_attempt_tokenized_unchanged:
  assumes "map fst updated_market = [B..<2 * B]"
    and "transaction_attempt c g investors d True (updated_market, txs, k) = Inr st'"
  shows "st' = (updated_market, txs, k + 2)"
proof -
  have len: "length updated_market = B"
    using assms(1) by (rule tokenized_labels_length)
  have ne: "updated_market \<noteq> []"
    using assms(2) transaction_attempt_empty_market [of c g investors d True txs k] by auto
  have B: "0 < B" using ne len by auto
  have inv: "investors \<noteq> []"
    using assms(2) transaction_attempt_no_investors [OF ne, of c g d True txs k] by auto
  show ?thesis
  proof (cases "tokenized_min_amount c
            > assets (investors ! (rand_index g (k + 1) mod length investors)) * 0.1")
    case True
    with ne inv have "transaction_attempt c g investors d True (updated_market, txs, k)
        = Inr (updated_market, txs, k + 2)"
      by (simp add: transaction_attempt_def randint_def iloc_def Let_def)
    with assms(2) show ?thesis by simp
  next
    case False
    from transaction_attempt_tokenized_keyerror [OF assms(1) B inv False] assms(2)
    show ?thesis by simp
  qed
qed

lemma transaction_loop_tokenized_unchanged:
  assumes "map fst updated_market = [B..<2 * B]"
    and "transaction_loop c g investors d True n (updated_market, txs, k) = Inr st'"
  shows "st' = (updated_market, txs, k + 2 * n)"
  using assms(2)
proof (induction n arbitrary: k)
  case 0
  then show ?case by simp
next
  case (Suc n)
  from Suc.prems obtain st1 where
    a: "transaction_attempt c g investors d True (updated_market, txs, k) = Inr st1"
    and l: "transaction_loop c g investors d True n st1 = Inr st'"
    by (cases "transaction_attempt c g investors d True (updated_market, txs, k)") auto
  from transaction_attempt_tokenized_unchanged [OF assms(1) a]
  have "st1 = (updated_market, txs, k + 2)" .
  with l Suc.IH [of "k + 2"] show ?case by simp
qed

lemma transaction_attempt_traditional_ok:
  assumes "map fst updated_market = [0..<length updated_market]"
    and "updated_market \<noteq> []" and "investors \<noteq> []"
  shows "\<exists>um' txs' k'. transaction_attempt c g investors d False (updated_market, txs, k)
             = Inr (um', txs', k')
           \<and> map fst um' = map fst updated_market \<and> length um' = length updated_market"
proof -
  let ?i = "rand_index g k mod length updated_market"
  have "?i < length updated_market"
    using assms(2) by simp
  then have "?i \<in> set (map fst updated_market)"
    using assms(1) by simp
  then obtain r where r: "at_get updated_market ?i = Inr r"
    using at_get_present by blast
  with assms(2,3) show ?thesis
    by (simp add: transaction_attempt_def randint_def iloc_def Let_def labels_at_set
        length_at_set)
qed

lemma transaction_loop_traditional_ok:
  assumes "map fst updated_market = [0..<length updated_market]"
    and "updated_market \<noteq> []" and "investors \<noteq> []"
  shows "\<exists>um' txs' k'. transaction_loop c g investors d False n (updated_market, txs, k)
             = Inr (um', txs', k')
           \<and> map fst um' = map fst updated_market \<and> length um' = length updated_market"
  using assms(1,2)
proof (induction n arbitrary: updated_market txs k)
  case 0
  show ?case by simp
next
  case (Suc n)
  from transaction_attempt_traditional_ok [OF Suc.prems assms(3), of c g d txs k]
  obtain um1 txs1 k1 where
    a: "transaction_attempt c g investors d False (updated_market, txs, k) = Inr (um1, txs1, k1)"
    and l1: "map fst um1 = map fst updated_market" and n1: "length um1 = length updated_market"
    by blast
  have "map fst um1 = [0..<length um1]" "um1 \<noteq> []"
    using l1 n1 Suc.prems by auto
  from Suc.IH [OF this, of txs1 k1] a l1 n1 show ?case
    by auto
qed

section \<open>Generated populations and initial markets\<close>

lemma maturity_choice_pos: "0 < [1, 2, 3, 5, 7, 10, 15, 20, 30 :: int] ! (r mod 9)"
proof -
  have "[1, 2, 3, 5, 7, 10, 15, 20, 30 :: int] ! (r mod 9)
      \<in> set [1, 2, 3, 5, 7, 10, 15, 20, 30 :: int]"
    by (rule nth_mem) simp
  then show ?thesis by auto
qed

lemma generate_bonds_maturities:
  assumes "0 \<le> num_bonds c"
  shows "\<exists>trad. generate_bonds c g k =
         Inr (range_index (trad @ map (\<lambda>b. b\<lparr>is_tokenized := True,
                bond_id := bond_id b + num_bonds c\<rparr>) trad),
              k + 4 * nat (num_bonds c))
     \<and> length trad = nat (num_bonds c)
     \<and> (\<forall>b \<in> set trad. \<not> is_tokenized b \<and> 0 < maturity_years b)"
  using assms unfolding generate_bonds_def Let_def
  apply (simp del: map_map)
  apply (rule exI, rule conjI, rule refl)
  apply (auto simp: choice_def maturity_choice_pos)
  done

lemma generate_investors_ok:
  assumes "0 \<le> num_investors c"
  shows "\<exists>investors. generate_investors c g k = Inr (investors, k + 5 * nat (num_investors c))
     \<and> length investors = nat (num_investors c)
     \<and> (\<forall>i < nat (num_investors c).
          assets (investors ! i)
            = exp (10 + 2 * rand_gauss g (k + nat (num_investors c) + i)) * 10000)"
  using assms
  by (simp add: generate_investors_def lognormal_def Let_def)

lemma initialize_market_ok:
  assumes "market \<noteq> []"
  shows "\<exists>rows. initialize_market g market k = Inr (rows, k + length market)
     \<and> map fst rows = map fst market
     \<and> length rows = length market
     \<and> (\<forall>i < length market.
          maturity_years (snd (rows ! i)) = maturity_years (snd (market ! i))
        \<and> bid_ask_spread (snd (rows ! i))
            = (if is_tokenized (snd (market ! 0))
               then 0.001 + 0.001 * real_of_int (maturity_years (snd (market ! i)))
               else 0.005 + 0.002 * real_of_int (maturity_years (snd (market ! i)))))"
proof -
  have "map fst (fst (projr (initialize_market g market k))) = map fst market"
    using assms
    by (intro nth_equalityI) (simp_all add: initialize_market_def iloc_def Let_def)
  with assms show ?thesis
    by (simp add: initialize_market_def iloc_def Let_def)
qed

lemma initialize_markets_ok:
  fixes n :: int
  assumes "trad \<noteq> []" and "\<forall>b \<in> set trad. \<not> is_tokenized b"
  defines "B \<equiv> length trad"
  defines "tok \<equiv> map (\<lambda>b. b\<lparr>is_tokenized := True, bond_id := bond_id b + n\<rparr>) trad"
  shows "\<exists>trad_m tok_m. initialize_markets g (range_index (trad @ tok)) k
            = Inr (trad_m, tok_m, k + 2 * B)
     \<and> map fst trad_m = [0..<B] \<and> map fst tok_m = [B..<2 * B]
     \<and> (\<forall>i < B.
          maturity_years (snd (trad_m ! i)) = maturity_years (trad ! i)
        \<and> maturity_years (snd (tok_m ! i)) = maturity_years (trad ! i)
        \<and> bid_ask_spread (snd (trad_m ! i))
            = 0.005 + 0.002 * real_of_int (maturity_years (trad ! i))
        \<and> bid_ask_spread (snd (tok_m ! i))
            = 0.001 + 0.001 * real_of_int (maturity_years (trad ! i)))"
proof -
  have lt: "length tok = B" by (simp add: tok_def B_def)
  have B: "0 < B" using assms(1) by (simp add: B_def)
  have all_tok: "\<forall>b \<in> set tok. is_tokenized b" by (simp add: tok_def)
  have ri: "range_index (trad @ tok) = zip [0..<B] trad @ zip [B..<2 * B] tok"
    using range_index_append [of trad tok] lt by (simp add: B_def mult_2)
  have f1: "filter (\<lambda>(l, b). \<not> is_tokenized b) (range_index (trad @ tok)) = zip [0..<B] trad"
    using filter_zip_all [of trad "\<lambda>b. \<not> is_tokenized b" "[0..<B]"]
      filter_zip_none [of tok "\<lambda>b. \<not> is_tokenized b" "[B..<2 * B]"] assms(2) all_tok
    by (simp add: ri)
  have f2: "filter (\<lambda>(l, b). is_tokenized b) (range_index (trad @ tok)) = zip [B..<2 * B] tok"
    using filter_zip_none [of trad "\<lambda>b. is_tokenized b" "[0..<B]"]
      filter_zip_all [of tok "\<lambda>b. is_tokenized b" "[B..<2 * B]"] assms(2) all_tok
    by (simp add: ri)
  have ne1: "zip [0..<B] trad \<noteq> []" using assms(1) B by (cases trad) (auto simp: B_def upt_rec)
  have ne2: "zip [B..<2 * B] tok \<noteq> []"
    using B lt by (cases tok) (auto simp: upt_rec)
  have l1: "length (zip [0..<B] trad) = B" by (simp add: B_def)
  have l2: "length (zip [B..<2 * B] tok) = B" using lt by simp
  from initialize_market_ok [OF ne1, of g k] obtain trad_m where
    t1: "initialize_market g (zip [0..<B] trad) k = Inr (trad_m, k + B)"
    and t2: "map fst trad_m = map fst (zip [0..<B] trad)"
    and t3: "\<forall>i < B.
          maturity_years (snd (trad_m ! i)) = maturity_years (snd (zip [0..<B] trad ! i))
        \<and> bid_ask_spread (snd (trad_m ! i))
            = (if is_tokenized (snd (zip [0..<B] trad ! 0))
               then 0.001 + 0.001 * real_of_int (maturity_years (snd (zip [0..<B] trad ! i)))
               else 0.005 + 0.002 * real_of_int (maturity_years (snd (zip [0..<B] trad ! i))))"
    using l1 by auto
  from initialize_market_ok [OF ne2, of g "k + B"] obtain tok_m where
    u1: "initialize_market g (zip [B..<2 * B] tok) (k + B) = Inr (tok_m, k + B + B)"
    and u2: "map fst tok_m = map fst (zip [B..<2 * B] tok)"
    and u3: "\<forall>i < B.
          maturity_years (snd (tok_m ! i)) = maturity_years (snd (zip [B..<2 * B] tok ! i))
        \<and> bid_ask_spread (snd (tok_m ! i))
            = (if is_tokenized (snd (zip [B..<2 * B] tok ! 0))
               then 0.001 + 0.001 * real_of_int (maturity_years (snd (zip [B..<2 * B] tok ! i)))
               else 0.005 + 0.002 * real_of_int (maturity_years (snd (zip [B..<2 * B] tok ! i))))"
    using l2 by auto
  have r: "initialize_markets g (range_index (trad @ tok)) k = Inr (trad_m, tok_m, k + 2 * B)"
    using t1 u1 by (simp add: initialize_markets_def f1 f2 Let_def)
  have la: "map fst trad_m = [0..<B]" using t2 by (simp add: B_def)
  have lb: "map fst tok_m = [B..<2 * B]" using u2 lt by simp
  have nt0: "\<not> is_tokenized (trad ! 0)" using assms(1,2) by (simp add: B_def)
  have tk0: "is_tokenized (tok ! 0)" using B lt all_tok by simp
  have rows: "maturity_years (snd (trad_m ! i)) = maturity_years (trad ! i)
        \<and> maturity_years (snd (tok_m ! i)) = maturity_years (trad ! i)
        \<and> bid_ask_spread (snd (trad_m ! i))
            = 0.005 + 0.002 * real_of_int (maturity_years (trad ! i))
        \<and> bid_ask_spread (snd (tok_m ! i))
            = 0.001 + 0.001 * real_of_int (maturity_years (trad ! i))" if "i < B" for i
  proof -
    have m: "maturity_years (tok ! i) = maturity_years (trad ! i)"
      using that by (simp add: tok_def B_def)
    from that t3 u3 nt0 tk0 B lt m show ?thesis
      by (simp add: B_def)
  qed
  from r la lb rows show ?thesis by blast
qed

section \<open>The daily trading step\<close>

lemma update_market_for_next_day_ok:
  assumes "original_market \<noteq> []"
  shows "\<exists>market'. update_market_for_next_day g original_market updated_market k
           = Inr (market', k + 2 * length original_market)
     \<and> map fst market' = map fst original_market
     \<and> length market' = length original_market"
proof -
  have "map fst (fst (projr (update_market_for_next_day g original_market updated_market k)))
      = map fst original_market"
    using assms
    by (intro nth_equalityI) (simp_all add: update_market_for_next_day_def iloc_def Let_def)
  with assms show ?thesis
    by (simp add: update_market_for_next_day_def iloc_def Let_def)
qed

lemma volume_update_prices:
  "map (\<lambda>(l, r). daily_volume r) (update_prices g mc m k) = map (\<lambda>(l, r). daily_volume r) m"
  by (rule nth_equalityI) (simp_all add: update_prices_def Let_def case_prod_unfold)

lemma target_transactions_pos: "\<exists>n. target_transactions mc tokenized len = Suc n"
proof -
  have "0 < target_transactions mc tokenized len"
    by (simp add: target_transactions_def Let_def)
  then show ?thesis
    by (cases "target_transactions mc tokenized len") auto
qed


lemma simulate_daily_trading_skip:
  assumes "market \<noteq> []" and "investors \<noteq> []"
    and "\<forall>inv \<in> set investors.
           assets inv * 0.1 < (if tokenized then tokenized_min_amount c else traditional_min_amount c)"
  shows "\<exists>metrics market' k'.
           simulate_daily_trading c g investors market d mc tokenized k
             = Inr (metrics, [], market', k')
         \<and> num_transactions metrics = 0 \<and> dm_date metrics = d
         \<and> map fst market' = map fst market"
proof -
  let ?um = "update_prices g mc market k"
  have ne: "?um \<noteq> []"
    using assms(1) length_update_prices [of g mc market k] by auto
  note loop = transaction_loop_skip [OF ne assms(2,3), of g d
      "target_transactions mc tokenized (length ?um)" "[]" "k + length market"]
  from update_market_for_next_day_ok [OF assms(1), of g ?um
      "k + length market + 2 * target_transactions mc tokenized (length ?um)"]
  obtain market' where
    "update_market_for_next_day g market ?um
       (k + length market + 2 * target_transactions mc tokenized (length ?um))
       = Inr (market', k + length market + 2 * target_transactions mc tokenized (length ?um)
                + 2 * length market)"
    and "map fst market' = map fst market"
    by blast
  with loop show ?thesis
    by (simp add: simulate_daily_trading_def Let_def)
qed

lemma simulate_daily_trading_traditional_ok:
  assumes "map fst market = [0..<length market]" and "market \<noteq> []" and "investors \<noteq> []"
  shows "\<exists>metrics txs market' k'.
           simulate_daily_trading c g investors market d mc False k
             = Inr (metrics, txs, market', k')
         \<and> map fst market' = map fst market"
proof -
  let ?um = "update_prices g mc market k"
  have ne: "?um \<noteq> []"
    using assms(2) length_update_prices [of g mc market k] by auto
  have lab: "map fst ?um = [0..<length ?um]"
    using assms(1) by (simp add: labels_update_prices length_update_prices)
  from transaction_loop_traditional_ok [OF lab ne assms(3), of c g d
      "target_transactions mc False (length ?um)" "[]" "k + length market"]
  obtain um' txs' k' where
    loop: "transaction_loop c g investors d False (target_transactions mc False (length ?um))
             (?um, [], k + length market) = Inr (um', txs', k')"
    by blast
  from update_market_for_next_day_ok [OF assms(2), of g um' k']
  obtain market' where
    "update_market_for_next_day g market um' k' = Inr (market', k' + 2 * length market)"
    and "map fst market' = map fst market"
    by blast
  with loop show ?thesis
    by (simp add: simulate_daily_trading_def Let_def)
qed

lemma simulate_daily_trading_tokenized_keyerror:
  assumes "map fst market = [B..<2 * B]" and "0 < B" and "investors \<noteq> []"
    and "\<forall>inv \<in> set investors. \<not> tokenized_min_amount c > assets inv * 0.1"
  shows "simulate_daily_trading c g investors market d mc True k = Inl KeyError"
proof -
  let ?um = "update_prices g mc market k"
  have lab: "map fst ?um = [B..<2 * B]"
    using assms(1) by (simp add: labels_update_prices)
  obtain n where n: "target_transactions mc True (length ?um) = Suc n"
    using target_transactions_pos by blast
  have "investors ! (rand_index g (k + length market + 1) mod length investors) \<in> set investors"
    using assms(3) by simp
  with assms(4) have
    "\<not> tokenized_min_amount c
        > assets (investors ! (rand_index g (k + length market + 1) mod length investors)) * 0.1"
    by blast
  from transaction_attempt_tokenized_keyerror [OF lab assms(2,3) this, of d "[]"]
  have "transaction_attempt c g investors d True (?um, [], k + length market) = Inl KeyError" .
  with n show ?thesis
    by (simp add: simulate_daily_trading_def Let_def)
qed

lemma simulate_daily_trading_tokenized_no_trade:
  assumes "map fst market = [B..<2 * B]"
    and "simulate_daily_trading c g investors market d mc True k
           = Inr (metrics, txs, market', k')"
  shows "txs = [] \<and> num_transactions metrics = 0
       \<and> total_volume metrics = sum_list (map (\<lambda>(l, r). daily_volume r) market)
       \<and> map fst market' = [B..<2 * B]"
proof -
  let ?um = "update_prices g mc market k"
  let ?n = "target_transactions mc True (length ?um)"
  have lab: "map fst ?um = [B..<2 * B]"
    using assms(1) by (simp add: labels_update_prices)
  from assms(2) obtain st where
    loop: "transaction_loop c g investors d True ?n (?um, [], k + length market) = Inr st"
    by (cases "transaction_loop c g investors d True ?n (?um, [], k + length market)")
      (auto simp: simulate_daily_trading_def Let_def)
  from transaction_loop_tokenized_unchanged [OF lab loop]
  have st: "st = (?um, [], k + length market + 2 * ?n)" .
  have ne: "market \<noteq> []"
  proof
    assume "market = []"
    then have "?um = []" by (simp add: update_prices_def)
    with loop target_transactions_pos [of mc True "length ?um"]
      transaction_attempt_empty_market [of c g investors d True "[]" "k + length market"]
    show False by auto
  qed
  from update_market_for_next_day_ok [OF ne, of g ?um "k + length market + 2 * ?n"]
  obtain m1 where
    u: "update_market_for_next_day g market ?um (k + length market + 2 * ?n)
         = Inr (m1, k + length market + 2 * ?n + 2 * length market)"
    and l: "map fst m1 = map fst market"
    by blast
  from assms(2) loop st u l assms(1) show ?thesis
    by (auto simp: simulate_daily_trading_def Let_def volume_update_prices)
qed

section \<open>Investors below the minimum amount\<close>



section \<open>The tokenized venue: volume update by label\<close>

text \<open>
  C2. For a positive bond count \<open>B\<close> the tokenized market table that the initializer builds
  has the row labels \<open>B .. 2 * B - 1\<close>. On a table with these labels the lookup by label of
  any positional index \<open>bond_idx < B\<close> finds no row (\<^verbatim>\<open>KeyError\<close>); so a tokenized
  transaction attempt that is not skipped ends in that error, and whenever the tokenized daily
  trading step returns, it has recorded no transaction, its total volume is the sum of the
  volumes the table had before, none incremented, and the table keeps its labels for the
  next day.
\<close>

theorem tokenized_volume_lookup_fails:
  "(0 < num_bonds c \<longrightarrow>
      (\<exists>bonds k1 trad tok k3. generate_bonds c g k = Inr (bonds, k1)
         \<and> initialize_markets g bonds k2 = Inr (trad, tok, k3)
         \<and> map fst tok = [nat (num_bonds c)..<2 * nat (num_bonds c)]))
 \<and> (map fst market = [B..<2 * B] \<and> bond_idx < B \<longrightarrow> at_get market bond_idx = Inl KeyError)
 \<and> (map fst market = [B..<2 * B] \<and> 0 < B \<and> investors \<noteq> []
      \<and> \<not> tokenized_min_amount c
            > assets (investors ! (rand_index g (k + 1) mod length investors)) * 0.1
    \<longrightarrow> transaction_attempt c g investors d True (market, txs, k) = Inl KeyError)
 \<and> (map fst market = [B..<2 * B]
      \<and> simulate_daily_trading c g investors market d mc True k = Inr (metrics, txs', market', k')
    \<longrightarrow> txs' = [] \<and> num_transactions metrics = 0
       \<and> total_volume metrics = sum_list (map (\<lambda>(l, r). daily_volume r) market)
       \<and> map fst market' = [B..<2 * B])"
proof -
  have p1: "0 < num_bonds c \<longrightarrow>
      (\<exists>bonds k1 trad tok k3. generate_bonds c g k = Inr (bonds, k1)
         \<and> initialize_markets g bonds k2 = Inr (trad, tok, k3)
         \<and> map fst tok = [nat (num_bonds c)..<2 * nat (num_bonds c)])"
  proof
    assume pos: "0 < num_bonds c"
    from pos generate_bonds_maturities [of c g k] obtain rows where
      gb: "generate_bonds c g k =
         Inr (range_index (rows @ map (\<lambda>b. b\<lparr>is_tokenized := True,
                bond_id := bond_id b + num_bonds c\<rparr>) rows), k + 4 * nat (num_bonds c))"
      and len: "length rows = nat (num_bonds c)"
      and nt: "\<forall>b \<in> set rows. \<not> is_tokenized b"
      by auto
    have ne: "rows \<noteq> []" using pos len by auto
    from initialize_markets_ok [OF ne nt, where n = "num_bonds c" and g = g and k = k2] len gb
    show "\<exists>bonds k1 trad tok k3. generate_bonds c g k = Inr (bonds, k1)
         \<and> initialize_markets g bonds k2 = Inr (trad, tok, k3)
         \<and> map fst tok = [nat (num_bonds c)..<2 * nat (num_bonds c)]"
      by auto
  qed
  have p2: "map fst market = [B..<2 * B] \<and> bond_idx < B
      \<longrightarrow> at_get market bond_idx = Inl KeyError"
  proof
    assume "map fst market = [B..<2 * B] \<and> bond_idx < B"
    then have "bond_idx \<notin> set (map fst market)" by simp
    then show "at_get market bond_idx = Inl KeyError" by (rule at_get_missing)
  qed
  have p3: "map fst market = [B..<2 * B] \<and> 0 < B \<and> investors \<noteq> []
      \<and> \<not> tokenized_min_amount c
            > assets (investors ! (rand_index g (k + 1) mod length investors)) * 0.1
    \<longrightarrow> transaction_attempt c g investors d True (market, txs, k) = Inl KeyError"
    using transaction_attempt_tokenized_keyerror [where updated_market = market and B = B
      and investors = investors and c = c and g = g and k = k and d = d and txs = txs]
    by blast
  have p4: "map fst market = [B..<2 * B]
      \<and> simulate_daily_trading c g investors market d mc True k = Inr (metrics, txs', market', k')
    \<longrightarrow> txs' = [] \<and> num_transactions metrics = 0
       \<and> total_volume metrics = sum_list (map (\<lambda>(l, r). daily_volume r) market)
       \<and> map fst market' = [B..<2 * B]"
    using simulate_daily_trading_tokenized_no_trade [where market = market and B = B
      and c = c and g = g and investors = investors and d = d and mc = mc and k = k
      and metrics = metrics and txs = txs' and market' = market' and k' = k']
    by blast
  show ?thesis
    by (rule conjI [OF p1 conjI [OF p2 conjI [OF p3 p4]]])
qed

theorem tokenized_volume_lookup_fails_witness:
  "0 < num_bonds scenario_config
   \<and> map fst [(1, sample_row)] = [1..<2 * 1] \<and> (0::nat) < 1 \<and> [rich_investor] \<noteq> []
   \<and> \<not> tokenized_min_amount scenario_config
          > assets ([rich_investor] ! (rand_index fixed_rng (0 + 1) mod length [rich_investor])) * 0.1
   \<and> (\<exists>bonds k1 trad tok k3. generate_bonds scenario_config fixed_rng 0 = Inr (bonds, k1)
         \<and> initialize_markets fixed_rng bonds 33 = Inr (trad, tok, k3)
         \<and> map fst tok = [2..<4])
   \<and> at_get [(1, sample_row)] 0 = Inl KeyError
   \<and> transaction_attempt scenario_config fixed_rng [rich_investor] (Timestamp 2024 1 1) True
        ([(1, sample_row)], [], 0) = Inl KeyError
   \<and> (\<exists>metrics txs' market' k'.
         simulate_daily_trading one_day_config fixed_rng [poor_investor] [(1, sample_row)]
           (Timestamp 2024 1 1) calm_conditions True 0 = Inr (metrics, txs', market', k')
       \<and> txs' = [] \<and> num_transactions metrics = 0
       \<and> total_volume metrics = 10 \<and> map fst market' = [1..<2 * 1])"
proof -
  have h1: "\<not> tokenized_min_amount scenario_config
          > assets ([rich_investor] ! (rand_index fixed_rng (0 + 1) mod length [rich_investor])) * 0.1"
    by (simp add: scenario_config_def rich_investor_def)
  have h2: "map fst [(1::nat, sample_row)] = [1..<2 * 1]" by (simp add: upt_rec)
  have h3: "\<forall>inv \<in> set [poor_investor].
      assets inv * 0.1 < (if True then tokenized_min_amount one_day_config
                           else traditional_min_amount one_day_config)"
    by (simp add: poor_investor_def one_day_config_def)
  from simulate_daily_trading_skip [OF _ _ h3, where market = "[(1, sample_row)]"
      and g = fixed_rng and d = "Timestamp 2024 1 1" and mc = calm_conditions and k = 0]
  obtain metrics market' k' where
    s: "simulate_daily_trading one_day_config fixed_rng [poor_investor] [(1, sample_row)]
           (Timestamp 2024 1 1) calm_conditions True 0 = Inr (metrics, [], market', k')"
    by auto
  have a: "0 < num_bonds scenario_config" by (simp add: scenario_config_def)
  note t1 = tokenized_volume_lookup_fails [where c = scenario_config and g = fixed_rng
      and k = 0 and ?k2.0 = 33 and market = "[(1, sample_row)]" and B = 1 and bond_idx = 0
      and investors = "[rich_investor]" and d = "Timestamp 2024 1 1" and txs = "[]"]
  note t2 = tokenized_volume_lookup_fails [where c = one_day_config and g = fixed_rng
      and k = 0 and market = "[(1, sample_row)]" and B = 1
      and investors = "[poor_investor]" and d = "Timestamp 2024 1 1" and mc = calm_conditions
      and metrics = metrics and txs' = "[]" and market' = market' and k' = k']
  have nb: "nat (num_bonds scenario_config) = 2" by (simp add: scenario_config_def)
  have lt: "(0::nat) < 1" by simp
  have ne: "[rich_investor] \<noteq> []" by simp
  have z: "(0::nat) < 1" by simp
  have c1: "\<exists>bonds k1 trad tok k3. generate_bonds scenario_config fixed_rng 0 = Inr (bonds, k1)
         \<and> initialize_markets fixed_rng bonds 33 = Inr (trad, tok, k3)
         \<and> map fst tok = [2..<4]"
    using t1 [THEN conjunct1, THEN mp, OF a] nb by simp
  have c2: "at_get [(1, sample_row)] 0 = Inl KeyError"
    using t1 [THEN conjunct2, THEN conjunct1, THEN mp, OF conjI [OF h2 z]] .
  have c3: "transaction_attempt scenario_config fixed_rng [rich_investor] (Timestamp 2024 1 1)
        True ([(1, sample_row)], [], 0) = Inl KeyError"
    using t1 [THEN conjunct2, THEN conjunct2, THEN conjunct1, THEN mp,
        OF conjI [OF h2 conjI [OF lt conjI [OF ne h1]]]] .
  have c4: "[] = ([] :: transaction list) \<and> num_transactions metrics = 0
       \<and> total_volume metrics = sum_list (map (\<lambda>(l, r). daily_volume r) [(1::nat, sample_row)])
       \<and> map fst market' = [1..<2 * 1]"
    using t2 [THEN conjunct2, THEN conjunct2, THEN conjunct2, THEN mp, OF conjI [OF h2 s]] .
  then have c4': "num_transactions metrics = 0 \<and> total_volume metrics = 10
       \<and> map fst market' = [1..<2 * 1]"
    by (simp add: sample_row_def)
  from s c4' have c5: "\<exists>metrics txs' market' k'.
         simulate_daily_trading one_day_config fixed_rng [poor_investor] [(1, sample_row)]
           (Timestamp 2024 1 1) calm_conditions True 0 = Inr (metrics, txs', market', k')
       \<and> txs' = [] \<and> num_transactions metrics = 0
       \<and> total_volume metrics = 10 \<and> map fst market' = [1..<2 * 1]"
    by blast
  from a h2 lt ne h1 c1 c2 c3 c5 show ?thesis
    by (intro conjI) assumption+
qed

section \<open>The end-to-end scenario\<close>

lemma simulate_day_tokenized_keyerror:
  assumes "simulation_days c \<noteq> 0"
    and "map fst (traditional_market s) = [0..<B]" and "map fst (tokenized_market s) = [B..<2 * B]"
    and "0 < B" and "investors \<noteq> []"
    and "\<forall>inv \<in> set investors. \<not> tokenized_min_amount c > assets inv * 0.1"
  shows "simulate_day c g investors 0 s = Inl KeyError"
proof -
  from update_market_conditions_day0 [OF assms(1), of g "sentiment_attr s" "draws s"]
  obtain mc k1 where
    mc: "update_market_conditions c g 0 (sentiment_attr s) (draws s) = Inr (mc, 0, k1)"
    by blast
  have len: "length (traditional_market s) = B"
  proof -
    have "length (map fst (traditional_market s)) = length [0..<B]"
      using assms(2) by simp
    then show ?thesis by simp
  qed
  have ne: "traditional_market s \<noteq> []" using len assms(4) by auto
  have lab: "map fst (traditional_market s) = [0..<length (traditional_market s)]"
    using assms(2) len by simp
  from simulate_daily_trading_traditional_ok [OF lab ne assms(5), of c g
      "add_days (Timestamp 2024 1 1) 0" mc k1]
  obtain metrics txs market' k2 where
    tr: "simulate_daily_trading c g investors (traditional_market s)
           (add_days (Timestamp 2024 1 1) 0) mc False k1 = Inr (metrics, txs, market', k2)"
    by blast
  note tk = simulate_daily_trading_tokenized_keyerror [OF assms(3,4,5,6), of g
      "add_days (Timestamp 2024 1 1) 0" mc k2]
  from mc tr tk show ?thesis
    by (simp add: simulate_day_def Let_def)
qed

text \<open>
  C1. For a configuration with positive counts, and so for 2 bonds, 5 investors, 3 days and
  the minimum amounts 10000 and 100, and for every state of the generator in which each
  generated investor has 10% of the assets at or above the tokenized minimum, the driver does
  not terminate normally: on day 0 the traditional venue trades, and the first tokenized
  transaction attempt raises \<^verbatim>\<open>KeyError\<close> at the volume update, so no metrics row is
  produced for either venue.
\<close>

theorem run_simulation_raises_KeyError:
  assumes "0 < num_bonds c" and "0 < num_investors c" and "0 < simulation_days c"
    and "\<forall>i < nat (num_investors c).
           tokenized_min_amount c
             \<le> exp (10 + 2 * rand_gauss g (4 * nat (num_bonds c) + nat (num_investors c) + i))
                 * 10000 * 0.1"
  shows "run_simulation c g = Inl KeyError"
proof -
  let ?B = "nat (num_bonds c)" and ?I = "nat (num_investors c)"
  from assms(1) generate_bonds_maturities [of c g 0] obtain rows where
    gb: "generate_bonds c g 0 =
         Inr (range_index (rows @ map (\<lambda>b. b\<lparr>is_tokenized := True,
                bond_id := bond_id b + num_bonds c\<rparr>) rows), 4 * ?B)"
    and len: "length rows = ?B"
    and nt: "\<forall>b \<in> set rows. \<not> is_tokenized b"
    by auto
  have ne: "rows \<noteq> []" using assms(1) len by auto
  from assms(2) generate_investors_ok [of c g "4 * ?B"] obtain investors where
    gi: "generate_investors c g (4 * ?B) = Inr (investors, 4 * ?B + 5 * ?I)"
    and li: "length investors = ?I"
    and as: "\<forall>i < ?I. assets (investors ! i)
               = exp (10 + 2 * rand_gauss g (4 * ?B + ?I + i)) * 10000"
    by auto
  have ine: "investors \<noteq> []" using assms(2) li by auto
  have afford: "\<forall>inv \<in> set investors. \<not> tokenized_min_amount c > assets inv * 0.1"
  proof
    fix inv assume "inv \<in> set investors"
    then obtain i where i: "i < ?I" and inv: "inv = investors ! i"
      using li by (auto simp: in_set_conv_nth)
    from assms(4) i have "tokenized_min_amount c
        \<le> exp (10 + 2 * rand_gauss g (4 * ?B + ?I + i)) * 10000 * 0.1"
      by blast
    with as i inv show "\<not> tokenized_min_amount c > assets inv * 0.1"
      by simp
  qed
  from initialize_markets_ok [OF ne nt, where n = "num_bonds c" and g = g
      and k = "4 * ?B + 5 * ?I"] len
  obtain trad tok where
    im: "initialize_markets g (range_index (rows @ map (\<lambda>b. b\<lparr>is_tokenized := True,
                bond_id := bond_id b + num_bonds c\<rparr>) rows)) (4 * ?B + 5 * ?I)
          = Inr (trad, tok, 4 * ?B + 5 * ?I + 2 * ?B)"
    and l1: "map fst trad = [0..<?B]" and l2: "map fst tok = [?B..<2 * ?B]"
    by auto
  obtain n where n: "nat (simulation_days c) = Suc n"
    using assms(3) by (cases "nat (simulation_days c)") auto
  have d: "simulation_days c \<noteq> 0" using assms(3) by simp
  have B: "0 < ?B" using assms(1) by simp
  let ?s = "\<lparr>traditional_market = trad, tokenized_market = tok, sentiment_attr = None,
             traditional_metrics = [], tokenized_metrics = [],
             traditional_transactions = [], tokenized_transactions = [],
             draws = 4 * ?B + 5 * ?I + 2 * ?B\<rparr>"
  have "simulate_day c g investors 0 ?s = Inl KeyError"
    by (rule simulate_day_tokenized_keyerror [OF d _ _ B ine afford]) (simp_all add: l1 l2)
  with gb gi im n show ?thesis
    by (simp add: run_simulation_def)
qed

theorem run_simulation_raises_KeyError_witness:
  "0 < num_bonds scenario_config \<and> 0 < num_investors scenario_config
   \<and> 0 < simulation_days scenario_config
   \<and> tokenized_min_amount scenario_config \<le> exp (10 + 2 * 0) * 10000 * 0.1
   \<and> run_simulation scenario_config fixed_rng = Inl KeyError"
proof -
  have e: "(1::real) \<le> 10 * exp 10"
    using exp_ge_add_one_self [of "10::real"] by linarith
  have h: "\<forall>i < nat (num_investors scenario_config).
           tokenized_min_amount scenario_config
             \<le> exp (10 + 2 * rand_gauss fixed_rng (4 * nat (num_bonds scenario_config)
                    + nat (num_investors scenario_config) + i)) * 10000 * 0.1"
    using e by (simp add: scenario_config_def fixed_rng_def)
  have a: "0 < num_bonds scenario_config" "0 < num_investors scenario_config"
    "0 < simulation_days scenario_config"
    by (simp_all add: scenario_config_def)
  have h0: "tokenized_min_amount scenario_config \<le> exp (10 + 2 * 0) * 10000 * 0.1"
    using e by (simp add: scenario_config_def)
  from a h0 run_simulation_raises_KeyError [OF a h] show ?thesis
    by (intro conjI)
qed

section \<open>Configuration values are not checked\<close>







section \<open>Transaction amounts and the minimum amount\<close>

text \<open>
  C3. On the traditional venue with the minimum amount 10000, a bond of face value 1000 and
  an investor with assets 1000000, the cap is \<open>min (5 * 1000) 100000 = 5000\<close>; the attempt
  is not skipped (the investor can afford the minimum) and records a transaction of amount
  5000, below the configured minimum.
\<close>

theorem transaction_below_minimum:
  "transaction_attempt scenario_config fixed_rng [rich_investor] (Timestamp 2024 1 1) False
     ([(0, sample_row)], [], 0)
   = Inr ([(0, sample_row\<lparr>daily_volume := 5010\<rparr>)],
          [\<lparr>tx_date = Timestamp 2024 1 1, tx_bond_id = 1, tx_investor_id = 2,
            tx_price = 1016.43, tx_amount = 5000, tx_type = ''sell'',
            tx_is_tokenized = False\<rparr>], 4)
   \<and> (5000 :: real) < traditional_min_amount scenario_config"
  by (simp add: transaction_attempt_def randint_def iloc_def at_get_def at_set_def
      exponential_def Let_def scenario_config_def fixed_rng_def rich_investor_def sample_row_def)

section \<open>Bid-ask spreads of the two venues\<close>

text \<open>
  Claim C8, as the code has it. At initialization every traditional row has the spread
  \<open>0.005 + 0.002 * maturity_years\<close> and every tokenized row the spread
  \<open>0.001 + 0.001 * maturity_years\<close>; the \<open>i\<close>-th tokenized row has the maturity of the
  \<open>i\<close>-th traditional row; and for every traditional row and every tokenized row of equal
  maturity the tokenized spread is at most the traditional one. This holds for every
  positive bond count and every state of the generator. (On later days each venue multiplies
  its spreads by noise factors of its own, and the order is not kept: see
  \<open>spread_order_not_kept\<close> below.)
\<close>

theorem initial_spread_order:
  assumes "0 < num_bonds c"
  shows "\<exists>bonds k1 trad tok k2.
       generate_bonds c g k = Inr (bonds, k1)
     \<and> initialize_markets g bonds k' = Inr (trad, tok, k2)
     \<and> length trad = nat (num_bonds c) \<and> length tok = nat (num_bonds c)
     \<and> (\<forall>i < nat (num_bonds c).
          bid_ask_spread (snd (trad ! i))
            = 0.005 + 0.002 * real_of_int (maturity_years (snd (trad ! i)))
        \<and> bid_ask_spread (snd (tok ! i))
            = 0.001 + 0.001 * real_of_int (maturity_years (snd (tok ! i)))
        \<and> maturity_years (snd (tok ! i)) = maturity_years (snd (trad ! i)))
     \<and> (\<forall>i < nat (num_bonds c). \<forall>j < nat (num_bonds c).
          maturity_years (snd (trad ! i)) = maturity_years (snd (tok ! j))
          \<longrightarrow> bid_ask_spread (snd (tok ! j)) \<le> bid_ask_spread (snd (trad ! i)))"
proof -
  from assms have nn: "0 \<le> num_bonds c" by simp
  from generate_bonds_maturities [OF nn, of g k] obtain bs where
    gb: "generate_bonds c g k =
         Inr (range_index (bs @ map (\<lambda>b. b\<lparr>is_tokenized := True,
                bond_id := bond_id b + num_bonds c\<rparr>) bs),
              k + 4 * nat (num_bonds c))"
    and len: "length bs = nat (num_bonds c)"
    and props: "\<forall>b \<in> set bs. \<not> is_tokenized b \<and> 0 < maturity_years b"
    by blast
  from len assms have ne: "bs \<noteq> []" by auto
  from props have nt: "\<forall>b \<in> set bs. \<not> is_tokenized b" by simp
  from initialize_markets_ok [OF ne nt, where n = "num_bonds c" and g = g and k = k']
  obtain trad tok where
    im: "initialize_markets g (range_index (bs @ map (\<lambda>b. b\<lparr>is_tokenized := True,
                bond_id := bond_id b + num_bonds c\<rparr>) bs)) k'
            = Inr (trad, tok, k' + 2 * length bs)"
    and la: "map fst trad = [0..<length bs]"
    and lb: "map fst tok = [length bs..<2 * length bs]"
    and rows: "\<forall>i < length bs.
          maturity_years (snd (trad ! i)) = maturity_years (bs ! i)
        \<and> maturity_years (snd (tok ! i)) = maturity_years (bs ! i)
        \<and> bid_ask_spread (snd (trad ! i))
            = 0.005 + 0.002 * real_of_int (maturity_years (bs ! i))
        \<and> bid_ask_spread (snd (tok ! i))
            = 0.001 + 0.001 * real_of_int (maturity_years (bs ! i))"
    by blast
  have l1: "length trad = nat (num_bonds c)"
    using arg_cong [OF la, of length] len by simp
  have l2: "length tok = nat (num_bonds c)"
    using arg_cong [OF lb, of length] len by simp
  have pos: "0 < maturity_years (bs ! i)" if "i < length bs" for i
    using props that by simp
  have r1: "\<forall>i < nat (num_bonds c).
          bid_ask_spread (snd (trad ! i))
            = 0.005 + 0.002 * real_of_int (maturity_years (snd (trad ! i)))
        \<and> bid_ask_spread (snd (tok ! i))
            = 0.001 + 0.001 * real_of_int (maturity_years (snd (tok ! i)))
        \<and> maturity_years (snd (tok ! i)) = maturity_years (snd (trad ! i))"
    using rows len by simp
  have r2: "bid_ask_spread (snd (tok ! j)) \<le> bid_ask_spread (snd (trad ! i))"
    if "i < nat (num_bonds c)" "j < nat (num_bonds c)"
      "maturity_years (snd (trad ! i)) = maturity_years (snd (tok ! j))" for i j
  proof -
    from that len rows have a: "bid_ask_spread (snd (trad ! i))
        = 0.005 + 0.002 * real_of_int (maturity_years (bs ! i))"
      and b: "bid_ask_spread (snd (tok ! j))
        = 0.001 + 0.001 * real_of_int (maturity_years (bs ! j))"
      and e: "maturity_years (bs ! i) = maturity_years (bs ! j)"
      by simp_all
    from pos [of i] that len have "0 < real_of_int (maturity_years (bs ! i))" by simp
    with a b e show ?thesis by simp
  qed
  from gb im l1 l2 r1 r2 show ?thesis by blast
qed

theorem initial_spread_order_witness:
  "0 < num_bonds spread_config
   \<and> (\<exists>bonds k1 trad tok k2.
       generate_bonds spread_config spread_rng 0 = Inr (bonds, k1)
     \<and> initialize_markets spread_rng bonds 9 = Inr (trad, tok, k2)
     \<and> length trad = 1 \<and> length tok = 1
     \<and> maturity_years (snd (tok ! 0)) = maturity_years (snd (trad ! 0))
     \<and> bid_ask_spread (snd (tok ! 0)) \<le> bid_ask_spread (snd (trad ! 0)))"
proof -
  have a: "0 < num_bonds spread_config" by (simp add: spread_config_def)
  have n: "nat (num_bonds spread_config) = Suc 0" by (simp add: spread_config_def)
  from initial_spread_order [OF a, of spread_rng 0 9] obtain bonds k1 trad tok k2 where
    gb: "generate_bonds spread_config spread_rng 0 = Inr (bonds, k1)"
    and im: "initialize_markets spread_rng bonds 9 = Inr (trad, tok, k2)"
    and l: "length trad = nat (num_bonds spread_config)"
      "length tok = nat (num_bonds spread_config)"
    and r1: "\<forall>i < nat (num_bonds spread_config).
          bid_ask_spread (snd (trad ! i))
            = 0.005 + 0.002 * real_of_int (maturity_years (snd (trad ! i)))
        \<and> bid_ask_spread (snd (tok ! i))
            = 0.001 + 0.001 * real_of_int (maturity_years (snd (tok ! i)))
        \<and> maturity_years (snd (tok ! i)) = maturity_years (snd (trad ! i))"
    and r2: "\<forall>i < nat (num_bonds spread_config). \<forall>j < nat (num_bonds spread_config).
          maturity_years (snd (trad ! i)) = maturity_years (snd (tok ! j))
          \<longrightarrow> bid_ask_spread (snd (tok ! j)) \<le> bid_ask_spread (snd (trad ! i))"
    by blast
  from r1 n have m: "maturity_years (snd (tok ! 0)) = maturity_years (snd (trad ! 0))"
    by simp
  from r2 n m have o: "bid_ask_spread (snd (tok ! 0)) \<le> bid_ask_spread (snd (trad ! 0))"
    by simp
  from l n have l': "length trad = 1" "length tok = 1" by simp_all
  from a gb im l' m o show ?thesis by blast
qed

subsection \<open>A run in which the spreads cross\<close>

lemma simulate_daily_trading_skip_eq:
  assumes "market \<noteq> []" and "investors \<noteq> []"
    and "\<forall>inv \<in> set investors.
           assets inv * 0.1 < (if tokenized then tokenized_min_amount c else traditional_min_amount c)"
  shows "simulate_daily_trading c g investors market d mc tokenized k =
     (case update_market_for_next_day g market (update_prices g mc market k)
             (k + length market + 2 * target_transactions mc tokenized (length market)) of
        Inl e \<Rightarrow> Inl e
      | Inr (market', k3) \<Rightarrow>
          Inr (\<lparr>dm_date = d,
                avg_price = mean (map (\<lambda>(l, r). price r) (update_prices g mc market k)),
                total_volume =
                  sum_list (map (\<lambda>(l, r). daily_volume r) (update_prices g mc market k)),
                avg_spread =
                  mean (map (\<lambda>(l, r). bid_ask_spread r) (update_prices g mc market k)),
                num_transactions = 0,
                dm_market_depth =
                  mean (map (\<lambda>(l, r). real_of_int (market_depth r))
                    (update_prices g mc market k))\<rparr>, [], market', k3))"
proof -
  let ?um = "update_prices g mc market k"
  have ne: "?um \<noteq> []"
    using assms(1) length_update_prices [of g mc market k] by auto
  note loop = transaction_loop_skip [OF ne assms(2,3), of g d
      "target_transactions mc tokenized (length market)" "[]" "k + length market"]
  show ?thesis
    by (simp add: simulate_daily_trading_def Let_def loop length_update_prices
        split: sum.splits prod.splits)
qed

lemma crossing_bonds:
  "generate_bonds spread_config spread_rng 0 =
     Inr ([(0, \<lparr>bond_id = 1, face_value = 50000, coupon_rate = 9 / 200, maturity_years = 30,
          credit_rating = ''A'', issue_date = Timestamp 2024 1 1, is_tokenized = False,
          maturity_date = Timestamp 2054 1 1\<rparr>),
      (1, \<lparr>bond_id = 2, face_value = 50000, coupon_rate = 9 / 200, maturity_years = 30,
          credit_rating = ''A'', issue_date = Timestamp 2024 1 1, is_tokenized = True,
          maturity_date = Timestamp 2054 1 1\<rparr>)], 4)"
  by (simp add: generate_bonds_def choice_def uniform_def range_index_def Let_def
      spread_config_def spread_rng_def)

lemma crossing_investors:
  "generate_investors spread_config spread_rng 4 = Inr (spread_investors, 9)"
  by (simp add: generate_investors_def choice_def lognormal_def normal_vec_def normal_def
      clip_def Let_def spread_config_def spread_rng_def spread_investors_def)

lemma crossing_markets:
  "initialize_markets spread_rng
     [(0, \<lparr>bond_id = 1, face_value = 50000, coupon_rate = 9 / 200, maturity_years = 30,
          credit_rating = ''A'', issue_date = Timestamp 2024 (Suc 0) (Suc 0), is_tokenized = False,
          maturity_date = Timestamp 2054 (Suc 0) (Suc 0)\<rparr>),
      (Suc 0, \<lparr>bond_id = 2, face_value = 50000, coupon_rate = 9 / 200, maturity_years = 30,
          credit_rating = ''A'', issue_date = Timestamp 2024 (Suc 0) (Suc 0), is_tokenized = True,
          maturity_date = Timestamp 2054 (Suc 0) (Suc 0)\<rparr>)] 9 =
     Inr ([(0, spread_bond False 72500 500 (13 / 200) 20)], [(Suc 0, spread_bond True 72500 2500 (31 / 1000) 60)], 11)"
  by (simp add: initialize_markets_def initialize_market_def iloc_def Let_def spread_rng_def
      spread_bond_def)

lemma crossing_conditions_0:
  "update_market_conditions spread_config spread_rng 0 None 11 =
     Inr (\<lparr>reference_rate = (3 / 100), market_sentiment = 0, volatility = (1 / 100), event_impact = 0\<rparr>, 0, 13)"
  by (simp add: update_market_conditions_def normal_def clip_def Let_def spread_config_def spread_rng_def)

lemma crossing_traditional_0:
  "simulate_daily_trading spread_config spread_rng spread_investors
     [(0, spread_bond False 72500 500 (13 / 200) 20)] d
     \<lparr>reference_rate = (3 / 100), market_sentiment = 0, volatility = (1 / 100), event_impact = 0\<rparr> False 13 =
     Inr (\<lparr>dm_date = d, avg_price = 72500, total_volume = 500, avg_spread = (13 / 200),
           num_transactions = 0, dm_market_depth = 20\<rparr>, [],
          [(0, spread_bond False 72500 500 (13 / 250) 20)], 18)"
  apply (subst simulate_daily_trading_skip_eq)
     apply (simp_all add: spread_investors_def spread_config_def)[3]
  apply (simp add: update_prices_def update_market_for_next_day_def
      target_transactions_def mean_def iloc_def normal_def normal_vec_def trunc_int_def
      Let_def spread_rng_def spread_bond_def)
  done

lemma crossing_tokenized_0:
  "simulate_daily_trading spread_config spread_rng spread_investors
     [(Suc 0, spread_bond True 72500 2500 (31 / 1000) 60)] d
     \<lparr>reference_rate = (3 / 100), market_sentiment = 0, volatility = (1 / 100), event_impact = 0\<rparr> True 18 =
     Inr (\<lparr>dm_date = d, avg_price = 72500, total_volume = 2500, avg_spread = (31 / 1000),
           num_transactions = 0, dm_market_depth = 60\<rparr>, [],
          [(Suc 0, spread_bond True 72500 2500 (93 / 2500) 60)], 27)"
  apply (subst simulate_daily_trading_skip_eq)
     apply (simp_all add: spread_investors_def spread_config_def)[3]
  apply (simp add: update_prices_def update_market_for_next_day_def
      target_transactions_def mean_def iloc_def normal_def normal_vec_def trunc_int_def
      Let_def spread_rng_def spread_bond_def)
  done

lemma crossing_day_0:
  "simulate_day spread_config spread_rng spread_investors (0)
     \<lparr>traditional_market = [(0, spread_bond False 72500 500 (13 / 200) 20)],
      tokenized_market = [(Suc 0, spread_bond True 72500 2500 (31 / 1000) 60)],
      sentiment_attr = None,
      traditional_metrics = [],
      tokenized_metrics = [],
      traditional_transactions = [], tokenized_transactions = [], draws = 11\<rparr> =
   Inr
     \<lparr>traditional_market = [(0, spread_bond False 72500 500 (13 / 250) 20)],
      tokenized_market = [(Suc 0, spread_bond True 72500 2500 (93 / 2500) 60)],
      sentiment_attr = (Some 0),
      traditional_metrics = [\<lparr>dm_date = Timestamp 2024 (Suc 0) (Suc 0), avg_price = 72500, total_volume = 500, avg_spread = (13 / 200),
           num_transactions = 0, dm_market_depth = 20\<rparr>],
      tokenized_metrics = [\<lparr>dm_date = Timestamp 2024 (Suc 0) (Suc 0), avg_price = 72500, total_volume = 2500, avg_spread = (31 / 1000),
           num_transactions = 0, dm_market_depth = 60\<rparr>],
      traditional_transactions = [], tokenized_transactions = [], draws = 27\<rparr>"
  by (simp add: simulate_day_def Let_def crossing_conditions_0 crossing_traditional_0
      crossing_tokenized_0 days_in_month_def leap_year_def)

lemma crossing_conditions_1:
  "update_market_conditions spread_config spread_rng 1 (Some 0) 27 =
     Inr (\<lparr>reference_rate = (1 / 30), market_sentiment = 0, volatility = (1 / 100), event_impact = 0\<rparr>, 0, 30)"
  by (simp add: update_market_conditions_def normal_def clip_def Let_def spread_config_def spread_rng_def)

lemma crossing_traditional_1:
  "simulate_daily_trading spread_config spread_rng spread_investors
     [(0, spread_bond False 72500 500 (13 / 250) 20)] d
     \<lparr>reference_rate = (1 / 30), market_sentiment = 0, volatility = (1 / 100), event_impact = 0\<rparr> False 30 =
     Inr (\<lparr>dm_date = d, avg_price = (144275 / 2), total_volume = 500, avg_spread = (13 / 250),
           num_transactions = 0, dm_market_depth = 20\<rparr>, [],
          [(0, spread_bond False (144275 / 2) 500 (26 / 625) 20)], 35)"
  apply (subst simulate_daily_trading_skip_eq)
     apply (simp_all add: spread_investors_def spread_config_def)[3]
  apply (simp add: update_prices_def update_market_for_next_day_def
      target_transactions_def mean_def iloc_def normal_def normal_vec_def trunc_int_def
      Let_def spread_rng_def spread_bond_def)
  done

lemma crossing_tokenized_1:
  "simulate_daily_trading spread_config spread_rng spread_investors
     [(Suc 0, spread_bond True 72500 2500 (93 / 2500) 60)] d
     \<lparr>reference_rate = (1 / 30), market_sentiment = 0, volatility = (1 / 100), event_impact = 0\<rparr> True 35 =
     Inr (\<lparr>dm_date = d, avg_price = (144275 / 2), total_volume = 2500, avg_spread = (93 / 2500),
           num_transactions = 0, dm_market_depth = 60\<rparr>, [],
          [(Suc 0, spread_bond True (144275 / 2) 2500 (279 / 6250) 60)], 44)"
  apply (subst simulate_daily_trading_skip_eq)
     apply (simp_all add: spread_investors_def spread_config_def)[3]
  apply (simp add: update_prices_def update_market_for_next_day_def
      target_transactions_def mean_def iloc_def normal_def normal_vec_def trunc_int_def
      Let_def spread_rng_def spread_bond_def)
  done

lemma crossing_day_1:
  "simulate_day spread_config spread_rng spread_investors (Suc 0)
     \<lparr>traditional_market = [(0, spread_bond False 72500 500 (13 / 250) 20)],
      tokenized_market = [(Suc 0, spread_bond True 72500 2500 (93 / 2500) 60)],
      sentiment_attr = (Some 0),
      traditional_metrics = [\<lparr>dm_date = Timestamp 2024 (Suc 0) (Suc 0), avg_price = 72500, total_volume = 500, avg_spread = (13 / 200),
           num_transactions = 0, dm_market_depth = 20\<rparr>],
      tokenized_metrics = [\<lparr>dm_date = Timestamp 2024 (Suc 0) (Suc 0), avg_price = 72500, total_volume = 2500, avg_spread = (31 / 1000),
           num_transactions = 0, dm_market_depth = 60\<rparr>],
      traditional_transactions = [], tokenized_transactions = [], draws = 27\<rparr> =
   Inr
     \<lparr>traditional_market = [(0, spread_bond False (144275 / 2) 500 (26 / 625) 20)],
      tokenized_market = [(Suc 0, spread_bond True (144275 / 2) 2500 (279 / 6250) 60)],
      sentiment_attr = (Some 0),
      traditional_metrics = [\<lparr>dm_date = Timestamp 2024 (Suc 0) (Suc 0), avg_price = 72500, total_volume = 500, avg_spread = (13 / 200),
           num_transactions = 0, dm_market_depth = 20\<rparr>,
          \<lparr>dm_date = Timestamp 2024 (Suc 0) 2, avg_price = (144275 / 2), total_volume = 500, avg_spread = (13 / 250),
           num_transactions = 0, dm_market_depth = 20\<rparr>],
      tokenized_metrics = [\<lparr>dm_date = Timestamp 2024 (Suc 0) (Suc 0), avg_price = 72500, total_volume = 2500, avg_spread = (31 / 1000),
           num_transactions = 0, dm_market_depth = 60\<rparr>,
          \<lparr>dm_date = Timestamp 2024 (Suc 0) 2, avg_price = (144275 / 2), total_volume = 2500, avg_spread = (93 / 2500),
           num_transactions = 0, dm_market_depth = 60\<rparr>],
      traditional_transactions = [], tokenized_transactions = [], draws = 44\<rparr>"
  by (simp add: simulate_day_def Let_def crossing_conditions_1 crossing_traditional_1
      crossing_tokenized_1 days_in_month_def leap_year_def)

lemma crossing_conditions_2:
  "update_market_conditions spread_config spread_rng 2 (Some 0) 44 =
     Inr (\<lparr>reference_rate = (11 / 300), market_sentiment = 0, volatility = (1 / 100), event_impact = 0\<rparr>, 0, 47)"
  by (simp add: update_market_conditions_def normal_def clip_def Let_def spread_config_def spread_rng_def)

lemma crossing_traditional_2:
  "simulate_daily_trading spread_config spread_rng spread_investors
     [(0, spread_bond False (144275 / 2) 500 (26 / 625) 20)] d
     \<lparr>reference_rate = (11 / 300), market_sentiment = 0, volatility = (1 / 100), event_impact = 0\<rparr> False 47 =
     Inr (\<lparr>dm_date = d, avg_price = (571329 / 8), total_volume = 500, avg_spread = (26 / 625),
           num_transactions = 0, dm_market_depth = 20\<rparr>, [],
          [(0, spread_bond False (571329 / 8) 500 (26 / 625) 20)], 52)"
  apply (subst simulate_daily_trading_skip_eq)
     apply (simp_all add: spread_investors_def spread_config_def)[3]
  apply (simp add: update_prices_def update_market_for_next_day_def
      target_transactions_def mean_def iloc_def normal_def normal_vec_def trunc_int_def
      Let_def spread_rng_def spread_bond_def)
  done

lemma crossing_tokenized_2:
  "simulate_daily_trading spread_config spread_rng spread_investors
     [(Suc 0, spread_bond True (144275 / 2) 2500 (279 / 6250) 60)] d
     \<lparr>reference_rate = (11 / 300), market_sentiment = 0, volatility = (1 / 100), event_impact = 0\<rparr> True 52 =
     Inr (\<lparr>dm_date = d, avg_price = (571329 / 8), total_volume = 2500, avg_spread = (279 / 6250),
           num_transactions = 0, dm_market_depth = 60\<rparr>, [],
          [(Suc 0, spread_bond True (571329 / 8) 2500 (279 / 6250) 60)], 61)"
  apply (subst simulate_daily_trading_skip_eq)
     apply (simp_all add: spread_investors_def spread_config_def)[3]
  apply (simp add: update_prices_def update_market_for_next_day_def
      target_transactions_def mean_def iloc_def normal_def normal_vec_def trunc_int_def
      Let_def spread_rng_def spread_bond_def)
  done

lemma crossing_day_2:
  "simulate_day spread_config spread_rng spread_investors (Suc (Suc 0))
     \<lparr>traditional_market = [(0, spread_bond False (144275 / 2) 500 (26 / 625) 20)],
      tokenized_market = [(Suc 0, spread_bond True (144275 / 2) 2500 (279 / 6250) 60)],
      sentiment_attr = (Some 0),
      traditional_metrics = [\<lparr>dm_date = Timestamp 2024 (Suc 0) (Suc 0), avg_price = 72500, total_volume = 500, avg_spread = (13 / 200),
           num_transactions = 0, dm_market_depth = 20\<rparr>,
          \<lparr>dm_date = Timestamp 2024 (Suc 0) 2, avg_price = (144275 / 2), total_volume = 500, avg_spread = (13 / 250),
           num_transactions = 0, dm_market_depth = 20\<rparr>],
      tokenized_metrics = [\<lparr>dm_date = Timestamp 2024 (Suc 0) (Suc 0), avg_price = 72500, total_volume = 2500, avg_spread = (31 / 1000),
           num_transactions = 0, dm_market_depth = 60\<rparr>,
          \<lparr>dm_date = Timestamp 2024 (Suc 0) 2, avg_price = (144275 / 2), total_volume = 2500, avg_spread = (93 / 2500),
           num_transactions = 0, dm_market_depth = 60\<rparr>],
      traditional_transactions = [], tokenized_transactions = [], draws = 44\<rparr> =
   Inr
     \<lparr>traditional_market = [(0, spread_bond False (571329 / 8) 500 (26 / 625) 20)],
      tokenized_market = [(Suc 0, spread_bond True (571329 / 8) 2500 (279 / 6250) 60)],
      sentiment_attr = (Some 0),
      traditional_metrics = [\<lparr>dm_date = Timestamp 2024 (Suc 0) (Suc 0), avg_price = 72500, total_volume = 500, avg_spread = (13 / 200),
           num_transactions = 0, dm_market_depth = 20\<rparr>,
          \<lparr>dm_date = Timestamp 2024 (Suc 0) 2, avg_price = (144275 / 2), total_volume = 500, avg_spread = (13 / 250),
           num_transactions = 0, dm_market_depth = 20\<rparr>,
          \<lparr>dm_date = Timestamp 2024 (Suc 0) 3, avg_price = (571329 / 8), total_volume = 500, avg_spread = (26 / 625),
           num_transactions = 0, dm_market_depth = 20\<rparr>],
      tokenized_metrics = [\<lparr>dm_date = Timestamp 2024 (Suc 0) (Suc 0), avg_price = 72500, total_volume = 2500, avg_spread = (31 / 1000),
           num_transactions = 0, dm_market_depth = 60\<rparr>,
          \<lparr>dm_date = Timestamp 2024 (Suc 0) 2, avg_price = (144275 / 2), total_volume = 2500, avg_spread = (93 / 2500),
           num_transactions = 0, dm_market_depth = 60\<rparr>,
          \<lparr>dm_date = Timestamp 2024 (Suc 0) 3, avg_price = (571329 / 8), total_volume = 2500, avg_spread = (279 / 6250),
           num_transactions = 0, dm_market_depth = 60\<rparr>],
      traditional_transactions = [], tokenized_transactions = [], draws = 61\<rparr>"
  by (simp add: simulate_day_def Let_def crossing_conditions_2 crossing_traditional_2
      crossing_tokenized_2 days_in_month_def leap_year_def)

lemma crossing_run:
  "run_simulation spread_config spread_rng =
   Inr
     \<lparr>traditional_market = [(0, spread_bond False (571329 / 8) 500 (26 / 625) 20)],
      tokenized_market = [(Suc 0, spread_bond True (571329 / 8) 2500 (279 / 6250) 60)],
      sentiment_attr = (Some 0),
      traditional_metrics = [\<lparr>dm_date = Timestamp 2024 (Suc 0) (Suc 0), avg_price = 72500, total_volume = 500, avg_spread = (13 / 200),
           num_transactions = 0, dm_market_depth = 20\<rparr>,
          \<lparr>dm_date = Timestamp 2024 (Suc 0) 2, avg_price = (144275 / 2), total_volume = 500, avg_spread = (13 / 250),
           num_transactions = 0, dm_market_depth = 20\<rparr>,
          \<lparr>dm_date = Timestamp 2024 (Suc 0) 3, avg_price = (571329 / 8), total_volume = 500, avg_spread = (26 / 625),
           num_transactions = 0, dm_market_depth = 20\<rparr>],
      tokenized_metrics = [\<lparr>dm_date = Timestamp 2024 (Suc 0) (Suc 0), avg_price = 72500, total_volume = 2500, avg_spread = (31 / 1000),
           num_transactions = 0, dm_market_depth = 60\<rparr>,
          \<lparr>dm_date = Timestamp 2024 (Suc 0) 2, avg_price = (144275 / 2), total_volume = 2500, avg_spread = (93 / 2500),
           num_transactions = 0, dm_market_depth = 60\<rparr>,
          \<lparr>dm_date = Timestamp 2024 (Suc 0) 3, avg_price = (571329 / 8), total_volume = 2500, avg_spread = (279 / 6250),
           num_transactions = 0, dm_market_depth = 60\<rparr>],
      traditional_transactions = [], tokenized_transactions = [], draws = 61\<rparr>"
proof -
  have n: "nat (simulation_days spread_config) = Suc (Suc (Suc 0))"
    by (simp add: spread_config_def)
  show ?thesis
    by (simp add: run_simulation_def crossing_bonds crossing_investors crossing_markets n
        crossing_day_0 crossing_day_1 crossing_day_2)
qed

text \<open>
  The order of the spreads is not kept on later days. One bond of maturity 30 in each
  venue, one investor below both minimum amounts (so that no transaction is attempted
  beyond the skip), three days; the spread noise of the traditional venue is
  \<open>1 + 0.05 * (-4)\<close> on the first two days and that of the tokenized venue
  \<open>1 + 0.05 * 4\<close>. The run returns normally, and on the third day the average spread of
  the tokenized venue, \<open>0.031 * 1.2 * 1.2 = 0.04464\<close>, is above that of the traditional
  venue, \<open>0.065 * 0.8 * 0.8 = 0.0416\<close>, for two bonds of the same maturity.
\<close>

theorem spread_order_not_kept:
  "\<not> isl (run_simulation spread_config spread_rng)
   \<and> map (\<lambda>(l, r). maturity_years r)
       (traditional_market (projr (run_simulation spread_config spread_rng))) = [30]
   \<and> map (\<lambda>(l, r). maturity_years r)
       (tokenized_market (projr (run_simulation spread_config spread_rng))) = [30]
   \<and> map avg_spread (traditional_metrics (projr (run_simulation spread_config spread_rng)))
       = [13 / 200, 13 / 250, 26 / 625]
   \<and> map avg_spread (tokenized_metrics (projr (run_simulation spread_config spread_rng)))
       = [31 / 1000, 93 / 2500, 279 / 6250]
   \<and> avg_spread (traditional_metrics (projr (run_simulation spread_config spread_rng)) ! 2)
       < avg_spread (tokenized_metrics (projr (run_simulation spread_config spread_rng)) ! 2)"
  by (simp add: crossing_run spread_bond_def)

end
